theory Spec2Isabelle
  imports Main "HOL-Library.Sublist" "HOL-Library.Word"
begin

section \<open>The PHP generator of vite-plugin-wp-hmr\<close>

text \<open>
  The development embeds \<^verbatim>\<open>buildPhp\<close> of \<^verbatim>\<open>src/index.ts\<close>, the function that
  turns the origin of the Vite dev server and the plugin options into the text of a
  WordPress must-use plugin.

  A string is the list of its characters; a character outside ASCII is the sequence of
  bytes of its UTF-8 encoding (the encoding in which the text is written to disk).
  \<open>sublist s t\<close> of the library theory on sublists says that \<open>s\<close> occurs in \<open>t\<close> as a
  contiguous part: it is \<^verbatim>\<open>t.includes(s)\<close>.
\<close>

subsection \<open>Characters that a string literal cannot hold\<close>

abbreviation TAB :: char where "TAB \<equiv> CHR 0x09"
abbreviation LF :: char where "LF \<equiv> CHR 0x0A"
abbreviation BSL :: char where "BSL \<equiv> CHR 0x5C"
abbreviation SQ :: char where "SQ \<equiv> CHR 0x27"

subsection \<open>Data\<close>

text \<open>
  \<^verbatim>\<open>csp?: boolean | string\<close>: the two alternatives of the union type. An absent option
  is \<open>None\<close> in the record below.
\<close>

datatype csp_value = CspBool bool | CspString string

text \<open>
  \<^verbatim>\<open>cacheTtl?: number\<close>, a double. An integer \<open>i\<close> with \<open>- 2^53 \<le> i < 2^53\<close> is
  \<open>Integer w\<close>, where \<open>w\<close> is the 54-bit two's-complement word of \<open>i\<close> (\<open>sint w = i\<close>):
  a double holds every such integer exactly, and template interpolation prints it digit
  by digit. Floating-point printing is not modelled beyond that range: every other
  number is carried with the text that \<^verbatim>\<open>Number.prototype.toString\<close> gives for it.
  \<open>Large i s\<close> is a number whose value is an integer \<open>i\<close> outside that range, printed as
  \<open>s\<close>: the shortest digits that read back as the same double, which need not be the
  digits of \<open>i\<close> (\<open>2^55 = 36028797018963968\<close> is printed as \<^verbatim>\<open>36028797018963970\<close>).
  \<open>Other s\<close> is any other number (a fraction, \<^verbatim>\<open>NaN\<close>, an infinity), printed as \<open>s\<close>.
\<close>

datatype number = Integer "54 word" | Large int string | Other string

record WpHmrOptions =
  outputDir :: string
  fileName :: "string option"
  devPatterns :: "string list option"
  cssReloadEvents :: "string list option"
  csp :: "csp_value option"
  cleanup :: "bool option"
  cacheTtl :: "number option"
  origin :: "string option"

text \<open>
  The three getters of the platform's \<^verbatim>\<open>URL\<close> object that \<^verbatim>\<open>buildPhp\<close> reads.
  The \<^verbatim>\<open>URL\<close> constructor is not code of this repository: \<^verbatim>\<open>buildPhp\<close> takes it as
  the parameter \<open>parseURL\<close>, which gives \<open>None\<close> where the constructor throws.
\<close>

record URL =
  protocol :: string
  hostname :: string
  port :: string

datatype error = TypeError

subsection \<open>Library functions of the language\<close>

text \<open>\<^verbatim>\<open>Array.prototype.join\<close> on an array of strings.\<close>

fun join :: "string list \<Rightarrow> string \<Rightarrow> string" where
  "join [] sep = []"
| "join [x] sep = x"
| "join (x # y # ys) sep = x @ sep @ join (y # ys) sep"

text \<open>
  The decimal numeral of a natural number, and \<^verbatim>\<open>Number.prototype.toString\<close> as
  template interpolation applies it.
\<close>

definition digit_char :: "nat \<Rightarrow> char" where
  "digit_char d = ''0123456789'' ! d"

fun decimal :: "nat \<Rightarrow> string" where
  "decimal n = (if n < 10 then [digit_char n] else decimal (n div 10) @ [digit_char (n mod 10)])"

declare decimal.simps [simp del]

fun Number_toString :: "number \<Rightarrow> string" where
  "Number_toString (Integer w) =
     (if sint w < 0 then CHR ''-'' # decimal (nat (- sint w)) else decimal (nat (sint w)))"
| "Number_toString (Large i s) = s"
| "Number_toString (Other s) = s"

subsection \<open>buildPhp\<close>

definition DEFAULT_TLDS :: "string list" where
  "DEFAULT_TLDS = [''local'', ''test'', ''dev'']"

text \<open>
  The array \<^verbatim>\<open>lines\<close> at the \<^verbatim>\<open>return\<close> statement. Each \<^verbatim>\<open>lines.push\<close>
  appends one element, so the pushes of a straight-line stretch are written as one list;
  the loop over \<^verbatim>\<open>cssReloadEvents\<close> pushes five lines for each event.
\<close>

definition buildPhp_lines :: "URL \<Rightarrow> string \<Rightarrow> WpHmrOptions \<Rightarrow> string list" where
  \<open>buildPhp_lines url orig options =
    (let host = hostname url;
         port = (if port url \<noteq> [] then port url
                 else if protocol url = ''https:'' then ''443'' else ''80'');
         cacheTtl = (case cacheTtl options of Some n \<Rightarrow> n | None \<Rightarrow> Integer 5);
         extraTlds = (case devPatterns options of Some ps \<Rightarrow> ps | None \<Rightarrow> []);
         allTlds = DEFAULT_TLDS @ extraTlds;
         tldList = join (map (\<lambda>t. [SQ] @ t @ [SQ]) allTlds) '', ''
     in
      [ ''<?php'',
        ''/**'',
        '' * Plugin Name: Vite HMR'',
        '' * Description: Injects Vite dev client for live reload. Auto-generated ''
          @ [CHR 0xC3, CHR 0xA2, CHR 0xE2, CHR 0x82, CHR 0xAC, CHR 0xE2, CHR 0x80, CHR 0x9D]
          @ '' do not edit.'',
        '' */'',
        '''',
        ''if ( ! function_exists( \'vite_hmr_is_dev\' ) ) {'',
        TAB # ''function vite_hmr_is_dev(): bool {'',
        TAB # TAB # ''$host = $_SERVER[\'HTTP_HOST\'] ?? '' @ [SQ, SQ] @ '';'',
        TAB # TAB # ''if ( $host === \'localhost\' || $host === \'127.0.0.1\' ) { return true; }'',
        TAB # TAB # ''foreach ( [ '' @ tldList @ '' ] as $tld ) {'',
        TAB # TAB # TAB # ''if ( preg_match( \'/'' @ [BSL, BSL]
          @ ''.\' . $tld . \'$/i\', $host ) ) { return true; }'',
        TAB # TAB # ''}'',
        TAB # TAB # ''return false;'',
        TAB # ''}'',
        ''}'',
        '''',
        ''if ( ! function_exists( \'vite_hmr_is_running\' ) ) {'',
        TAB # ''function vite_hmr_is_running(): bool {'',
        TAB # TAB # ''$key    = \'vite_hmr_'' @ port @ [SQ] @ '';'',
        TAB # TAB # ''$cached = get_transient( $key );'',
        TAB # TAB # ''if ( $cached !== false ) { return (bool) $cached; }'',
        TAB # TAB # ''$conn   = @fsockopen( '' @ [SQ] @ host @ [SQ] @ '', '' @ port
          @ '', $errno, $errstr, 1 );'',
        TAB # TAB # ''$result = is_resource( $conn );'',
        TAB # TAB # ''if ( $result ) { fclose( $conn ); }'',
        TAB # TAB # ''set_transient( $key, (int) $result, '' @ Number_toString cacheTtl @ '' );'',
        TAB # TAB # ''return $result;'',
        TAB # ''}'',
        ''}'',
        '''',
        ''if ( ! function_exists( \'vite_hmr_inject\' ) ) {'',
        TAB # ''function vite_hmr_inject(): void {'',
        TAB # TAB # ''if ( ! vite_hmr_is_dev() || ! vite_hmr_is_running() ) { return; }'',
        TAB # TAB # ''echo \'<script type="module" src="'' @ orig
          @ ''/@vite/client"></script>\' . "'' @ [BSL] @ ''n";'' ]
      @ (case cssReloadEvents options of
           None \<Rightarrow> []
         | Some events \<Rightarrow>
             if events = [] then []
             else
               [ TAB # TAB # ''echo \'<script type="module">\' . "'' @ [BSL] @ ''n";'',
                 TAB # TAB # ''echo \'import { createHotContext } from "'' @ orig
                   @ ''/@vite/client";\' . "'' @ [BSL] @ ''n";'',
                 TAB # TAB # ''echo \'const hot = createHotContext("/wp-hmr");\' . "'' @ [BSL]
                   @ ''n";'' ]
               @ concat (map (\<lambda>event.
                   [ TAB # TAB # ''echo \'hot.on("'' @ event @ ''", () => {\' . "'' @ [BSL]
                       @ ''n";'',
                     TAB # TAB # ''echo \'  document.querySelectorAll("link[rel=stylesheet]").forEach(l => {\' . "''
                       @ [BSL] @ ''n";'',
                     TAB # TAB # ''echo \'    const u = new URL(l.href); u.searchParams.set("t", Date.now()); l.href = u.toString();\' . "''
                       @ [BSL] @ ''n";'',
                     TAB # TAB # ''echo \'  });\' . "'' @ [BSL] @ ''n";'',
                     TAB # TAB # ''echo \'});\' . "'' @ [BSL] @ ''n";'' ]) events)
               @ [ TAB # TAB # ''echo \'</script>\' . "'' @ [BSL] @ ''n";'' ])
      @ [ TAB # ''}'',
          ''}'',
          ''add_action( \'wp_head\', \'vite_hmr_inject\', 1 );'',
          '''' ]
      @ (if csp options \<noteq> Some (CspBool False) then
           (let policy =
              (case csp options of
                 Some (CspString s) \<Rightarrow> s
               | _ \<Rightarrow> ''Content-Security-Policy: script-src * blob: \'unsafe-inline\' \'unsafe-eval\'; worker-src * blob:; connect-src * \'unsafe-inline\';'')
            in
             [ ''if ( ! function_exists( \'vite_hmr_csp\' ) ) {'',
               TAB # ''function vite_hmr_csp(): void {'',
               TAB # TAB # ''if ( ! vite_hmr_is_dev() ) { return; }'',
               TAB # TAB # ''header( "'' @ policy @ ''" );'',
               TAB # ''}'',
               ''}'',
               ''add_action( \'send_headers\', \'vite_hmr_csp\', 1 );'',
               '''' ])
         else []))\<close>

text \<open>
  \<^verbatim>\<open>buildPhp(origin, options)\<close>: the only statement that can throw is
  \<^verbatim>\<open>new URL(origin)\<close>; the result is \<^verbatim>\<open>lines.join('\n')\<close>.
\<close>

definition buildPhp :: "(string \<Rightarrow> URL option) \<Rightarrow> string \<Rightarrow> WpHmrOptions \<Rightarrow> error + string" where
  "buildPhp parseURL orig options =
    (case parseURL orig of
       None \<Rightarrow> Inl TypeError
     | Some url \<Rightarrow> Inr (join (buildPhp_lines url orig options) [LF]))"

subsection \<open>The output as a sequence of fragments\<close>

text \<open>
  The specification describes the generated script as an ordered sequence of fragments:
  header comment, dev-detector function, reachability-probe function, injector function
  with its registration and, optionally, policy function with its registration. The
  definitions of this subsection follow that description, with the text of each fragment
  taken from the section of \<^verbatim>\<open>buildPhp\<close> under the comment of the same name; lemma
  \<open>buildPhp_lines_fragments\<close> below shows that the array built by the code is their
  concatenation.
\<close>

text \<open>The fixed default permissive policy.\<close>

definition default_policy :: string where
  \<open>default_policy = ''Content-Security-Policy: script-src * blob: \'unsafe-inline\' \'unsafe-eval\'; worker-src * blob:; connect-src * \'unsafe-inline\';''\<close>

text \<open>The port of the origin, with its default by scheme when the URL has none.\<close>

definition resolved_port :: "URL \<Rightarrow> string" where
  "resolved_port url =
     (if port url = [] then (if protocol url = ''https:'' then ''443'' else ''80'') else port url)"

text \<open>The pattern list of the detector: base list, then the supplied patterns.\<close>

definition quoted :: "string \<Rightarrow> string" where
  "quoted t = SQ # t @ [SQ]"

definition supplied_patterns :: "WpHmrOptions \<Rightarrow> string list" where
  "supplied_patterns options = (case devPatterns options of None \<Rightarrow> [] | Some ps \<Rightarrow> ps)"

definition pattern_list :: "WpHmrOptions \<Rightarrow> string" where
  "pattern_list options = join (map quoted ([''local'', ''test'', ''dev''] @ supplied_patterns options)) '', ''"

text \<open>The TTL literal, the configured event names and the policy, if any.\<close>

definition ttl_literal :: "WpHmrOptions \<Rightarrow> string" where
  "ttl_literal options = (case cacheTtl options of None \<Rightarrow> ''5'' | Some n \<Rightarrow> Number_toString n)"

definition reload_events :: "WpHmrOptions \<Rightarrow> string list" where
  "reload_events options = (case cssReloadEvents options of None \<Rightarrow> [] | Some evs \<Rightarrow> evs)"

definition policy_text :: "WpHmrOptions \<Rightarrow> string option" where
  "policy_text options =
     (case csp options of
        None \<Rightarrow> Some default_policy
      | Some (CspBool b) \<Rightarrow> (if b then Some default_policy else None)
      | Some (CspString s) \<Rightarrow> Some s)"

definition header_fragment :: "string list" where
  \<open>header_fragment =
    [ ''<?php'',
      ''/**'',
      '' * Plugin Name: Vite HMR'',
      '' * Description: Injects Vite dev client for live reload. Auto-generated ''
        @ [CHR 0xC3, CHR 0xA2, CHR 0xE2, CHR 0x82, CHR 0xAC, CHR 0xE2, CHR 0x80, CHR 0x9D]
        @ '' do not edit.'',
      '' */'',
      '''' ]\<close>

definition detector_fragment :: "string \<Rightarrow> string list" where
  \<open>detector_fragment tlds =
    [ ''if ( ! function_exists( \'vite_hmr_is_dev\' ) ) {'',
      TAB # ''function vite_hmr_is_dev(): bool {'',
      TAB # TAB # ''$host = $_SERVER[\'HTTP_HOST\'] ?? '' @ [SQ, SQ] @ '';'',
      TAB # TAB # ''if ( $host === \'localhost\' || $host === \'127.0.0.1\' ) { return true; }'',
      TAB # TAB # ''foreach ( [ '' @ tlds @ '' ] as $tld ) {'',
      TAB # TAB # TAB # ''if ( preg_match( \'/'' @ [BSL, BSL]
        @ ''.\' . $tld . \'$/i\', $host ) ) { return true; }'',
      TAB # TAB # ''}'',
      TAB # TAB # ''return false;'',
      TAB # ''}'',
      ''}'',
      '''' ]\<close>

definition probe_fragment :: "string \<Rightarrow> string \<Rightarrow> string \<Rightarrow> string list" where
  \<open>probe_fragment h p ttl =
    [ ''if ( ! function_exists( \'vite_hmr_is_running\' ) ) {'',
      TAB # ''function vite_hmr_is_running(): bool {'',
      TAB # TAB # ''$key    = \'vite_hmr_'' @ p @ [SQ] @ '';'',
      TAB # TAB # ''$cached = get_transient( $key );'',
      TAB # TAB # ''if ( $cached !== false ) { return (bool) $cached; }'',
      TAB # TAB # ''$conn   = @fsockopen( '' @ [SQ] @ h @ [SQ] @ '', '' @ p
        @ '', $errno, $errstr, 1 );'',
      TAB # TAB # ''$result = is_resource( $conn );'',
      TAB # TAB # ''if ( $result ) { fclose( $conn ); }'',
      TAB # TAB # ''set_transient( $key, (int) $result, '' @ ttl @ '' );'',
      TAB # TAB # ''return $result;'',
      TAB # ''}'',
      ''}'',
      '''' ]\<close>

definition listener_registration :: "string \<Rightarrow> string" where
  \<open>listener_registration event =
     TAB # TAB # ''echo \'hot.on("'' @ event @ ''", () => {\' . "'' @ [BSL] @ ''n";''\<close>

definition listener :: "string \<Rightarrow> string list" where
  \<open>listener event =
    [ listener_registration event,
      TAB # TAB # ''echo \'  document.querySelectorAll("link[rel=stylesheet]").forEach(l => {\' . "''
        @ [BSL] @ ''n";'',
      TAB # TAB # ''echo \'    const u = new URL(l.href); u.searchParams.set("t", Date.now()); l.href = u.toString();\' . "''
        @ [BSL] @ ''n";'',
      TAB # TAB # ''echo \'  });\' . "'' @ [BSL] @ ''n";'',
      TAB # TAB # ''echo \'});\' . "'' @ [BSL] @ ''n";'' ]\<close>

definition hot_context_import :: "string \<Rightarrow> string" where
  \<open>hot_context_import orig =
     TAB # TAB # ''echo \'import { createHotContext } from "'' @ orig
       @ ''/@vite/client";\' . "'' @ [BSL] @ ''n";''\<close>

definition hot_context_statement :: string where
  \<open>hot_context_statement =
     TAB # TAB # ''echo \'const hot = createHotContext("/wp-hmr");\' . "'' @ [BSL] @ ''n";''\<close>

definition subscription_block :: "string \<Rightarrow> string list \<Rightarrow> string list" where
  \<open>subscription_block orig events =
    (if events = [] then []
     else
       [ TAB # TAB # ''echo \'<script type="module">\' . "'' @ [BSL] @ ''n";'',
         hot_context_import orig,
         hot_context_statement ]
       @ concat (map listener events)
       @ [ TAB # TAB # ''echo \'</script>\' . "'' @ [BSL] @ ''n";'' ])\<close>

definition injector_registration :: string where
  \<open>injector_registration = ''add_action( \'wp_head\', \'vite_hmr_inject\', 1 );''\<close>

definition injector_fragment :: "string \<Rightarrow> string list \<Rightarrow> string list" where
  \<open>injector_fragment orig events =
    [ ''if ( ! function_exists( \'vite_hmr_inject\' ) ) {'',
      TAB # ''function vite_hmr_inject(): void {'',
      TAB # TAB # ''if ( ! vite_hmr_is_dev() || ! vite_hmr_is_running() ) { return; }'',
      TAB # TAB # ''echo \'<script type="module" src="'' @ orig
        @ ''/@vite/client"></script>\' . "'' @ [BSL] @ ''n";'' ]
    @ subscription_block orig events
    @ [ TAB # ''}'',
        ''}'',
        injector_registration,
        '''' ]\<close>

definition policy_registration :: string where
  \<open>policy_registration = ''add_action( \'send_headers\', \'vite_hmr_csp\', 1 );''\<close>

definition policy_fragment :: "string option \<Rightarrow> string list" where
  \<open>policy_fragment pol =
    (case pol of
       None \<Rightarrow> []
     | Some policy \<Rightarrow>
         [ ''if ( ! function_exists( \'vite_hmr_csp\' ) ) {'',
           TAB # ''function vite_hmr_csp(): void {'',
           TAB # TAB # ''if ( ! vite_hmr_is_dev() ) { return; }'',
           TAB # TAB # ''header( "'' @ policy @ ''" );'',
           TAB # ''}'',
           ''}'',
           policy_registration,
           '''' ])\<close>

definition fragments :: "URL \<Rightarrow> string \<Rightarrow> WpHmrOptions \<Rightarrow> string list" where
  "fragments url orig options =
     header_fragment
     @ detector_fragment (pattern_list options)
     @ probe_fragment (hostname url) (resolved_port url) (ttl_literal options)
     @ injector_fragment orig (reload_events options)
     @ policy_fragment (policy_text options)"

subsection \<open>Lines of a text\<close>

text \<open>\<^verbatim>\<open>text.split('\n')\<close>: the lines of a text, cut at every line feed.\<close>

fun split_lines :: "string \<Rightarrow> string list" where
  "split_lines [] = [[]]"
| "split_lines (c # cs) =
     (if c = LF then [] # split_lines cs
      else (case split_lines cs of [] \<Rightarrow> [[c]] | l # ls \<Rightarrow> (c # l) # ls))"

subsection \<open>Example inputs\<close>

text \<open>
  The results of the \<^verbatim>\<open>URL\<close> constructor on the origins used in the examples (on
  every other string this example parser answers as the constructor does on an invalid
  URL), and \<^verbatim>\<open>opts()\<close> of the test-suite: the options with every optional field absent.
  The constructor drops a port that is the default port of the scheme: the \<^verbatim>\<open>port\<close> of
  \<^verbatim>\<open>wss://localhost:443\<close> is the empty string.
\<close>

definition URL_of_examples :: "string \<Rightarrow> URL option" where
  "URL_of_examples s =
     (if s = ''http://localhost:5173'' then
        Some \<lparr>protocol = ''http:'', hostname = ''localhost'', port = ''5173''\<rparr>
      else if s = ''https://mysite.local:3000'' then
        Some \<lparr>protocol = ''https:'', hostname = ''mysite.local'', port = ''3000''\<rparr>
      else if s = ''https://example.test'' then
        Some \<lparr>protocol = ''https:'', hostname = ''example.test'', port = ''''\<rparr>
      else if s = ''wss://localhost:443'' then
        Some \<lparr>protocol = ''wss:'', hostname = ''localhost'', port = ''''\<rparr>
      else None)"

definition opts :: WpHmrOptions where
  "opts = \<lparr>outputDir = ''/tmp/mu-plugins'', fileName = None, devPatterns = None,
     cssReloadEvents = None, csp = None, cleanup = None, cacheTtl = None, origin = None\<rparr>"

subsection \<open>Vocabulary of the claims\<close>

text \<open>
  The cache key of the probe and the statement that binds it; the value of a string of
  decimal digits.
\<close>

definition cache_key :: "URL \<Rightarrow> string" where
  "cache_key url = ''vite_hmr_'' @ resolved_port url"

definition key_statement :: "string \<Rightarrow> string" where
  "key_statement k = TAB # TAB # ''$key    = '' @ [SQ] @ k @ [SQ] @ '';''"

definition digits_value :: "string \<Rightarrow> nat" where
  "digits_value ds = foldl (\<lambda>a c. 10 * a + (of_char c - 48)) 0 ds"

definition literal_value :: "string \<Rightarrow> int" where
  "literal_value s =
     (case s of
        [] \<Rightarrow> 0
      | c # ds \<Rightarrow> if c = CHR ''-'' then - int (digits_value ds) else int (digits_value (c # ds)))"

text \<open>
  The existence guard that opens the definition of a function, and the first line of the
  definition of a function with a given return type.
\<close>

definition existence_guard :: "string \<Rightarrow> string" where
  "existence_guard f = ''if ( ! function_exists( '' @ [SQ] @ f @ [SQ] @ '' ) ) {''"

definition function_header :: "string \<Rightarrow> string \<Rightarrow> string" where
  "function_header f ty = TAB # ''function '' @ f @ ''(): '' @ ty @ '' {''"

text \<open>
  The caller-supplied strings that \<^verbatim>\<open>buildPhp\<close> copies into the output: the origin,
  the hostname and the resolved port of the parsed origin, the text of the TTL, the
  supplied patterns, the event names and a policy given as a string.
\<close>

definition interpolated :: "URL \<Rightarrow> string \<Rightarrow> WpHmrOptions \<Rightarrow> string list" where
  "interpolated url orig options =
     [orig, hostname url, resolved_port url, ttl_literal options]
     @ supplied_patterns options
     @ reload_events options
     @ (case csp options of Some (CspString s) \<Rightarrow> [s] | _ \<Rightarrow> [])"

text \<open>
  The lines of the hot-context subscription block that name the hot context: a listener
  registration, the import of \<^verbatim>\<open>createHotContext\<close> and the statement that calls it.
\<close>

definition listener_line :: "string \<Rightarrow> bool" where
  \<open>listener_line l = prefix (TAB # TAB # ''echo \'hot.on("'') l\<close>

definition hot_context_line :: "string \<Rightarrow> bool" where
  \<open>hot_context_line l \<longleftrightarrow>
     listener_line l \<or> l = hot_context_statement
     \<or> prefix (TAB # TAB # ''echo \'import { createHotContext } from "'') l\<close>

text \<open>
  The generated lines that hold a caller-supplied string, each as a function of that
  string.
\<close>

definition foreach_line :: "string \<Rightarrow> string" where
  \<open>foreach_line tlds = TAB # TAB # ''foreach ( [ '' @ tlds @ '' ] as $tld ) {''\<close>

definition fsockopen_line :: "string \<Rightarrow> string \<Rightarrow> string" where
  \<open>fsockopen_line h p =
     TAB # TAB # ''$conn   = @fsockopen( '' @ [SQ] @ h @ [SQ] @ '', '' @ p
       @ '', $errno, $errstr, 1 );''\<close>

definition set_transient_line :: "string \<Rightarrow> string" where
  \<open>set_transient_line ttl =
     TAB # TAB # ''set_transient( $key, (int) $result, '' @ ttl @ '' );''\<close>

definition client_script_line :: "string \<Rightarrow> string" where
  \<open>client_script_line orig =
     TAB # TAB # ''echo \'<script type="module" src="'' @ orig
       @ ''/@vite/client"></script>\' . "'' @ [BSL] @ ''n";''\<close>

definition header_line :: "string \<Rightarrow> string" where
  \<open>header_line policy = TAB # TAB # ''header( "'' @ policy @ ''" );''\<close>

text \<open>The port getter of a \<^verbatim>\<open>URL\<close> object gives a string of decimal digits.\<close>

definition decimal_digits :: "string \<Rightarrow> bool" where
  "decimal_digits p \<longleftrightarrow> (\<forall>c\<in>set p. c \<in> set ''0123456789'')"

text \<open>
  A text that the fixed parts of the generated lines cannot complete: it has none of the
  characters that delimit a caller-supplied string in a generated line, and neither
  begins nor ends with a space or a single quote.
\<close>

definition plain_needle :: "string \<Rightarrow> bool" where
  "plain_needle n \<longleftrightarrow>
     n \<noteq> [] \<and> set n \<inter> set (''[](),/'' @ [CHR 0x22, LF]) = {}
     \<and> hd n \<notin> set ('' '' @ [SQ]) \<and> last n \<notin> set ('' '' @ [SQ])"

text \<open>
  The generated lines other than the policy fragment, with the empty string in the place
  of every caller-supplied string, and one listener.
\<close>

definition fixed_lines :: "string list" where
  "fixed_lines =
     header_fragment
     @ detector_fragment (join (map quoted [''local'', ''test'', ''dev'']) '', '')
     @ probe_fragment [] [] []
     @ injector_fragment [] [[]]"

section \<open>Auxiliary facts\<close>

lemma decimal_5: "decimal 5 = ''5''"
  by code_simp

lemma Number_toString_5: "Number_toString (Integer 5) = ''5''"
  by (simp add: decimal_5)

lemma buildPhp_lines_fragments: "buildPhp_lines url orig options = fragments url orig options"
  unfolding buildPhp_lines_def fragments_def header_fragment_def detector_fragment_def
    probe_fragment_def injector_fragment_def policy_fragment_def subscription_block_def
    listener_def listener_registration_def hot_context_import_def hot_context_statement_def
    injector_registration_def policy_registration_def pattern_list_def supplied_patterns_def
    ttl_literal_def reload_events_def policy_text_def resolved_port_def default_policy_def
    quoted_def DEFAULT_TLDS_def Let_def
  by (simp add: Number_toString_5 del: Number_toString.simps split: option.split csp_value.split)

lemma join_Cons: "ys \<noteq> [] \<Longrightarrow> join (x # ys) sep = x @ sep @ join ys sep"
  by (cases ys) simp_all

lemma join_append:
  "xs \<noteq> [] \<Longrightarrow> ys \<noteq> [] \<Longrightarrow> join (xs @ ys) sep = join xs sep @ sep @ join ys sep"
proof (induction xs sep rule: join.induct)
  case (1 sep)
  then show ?case by simp
next
  case (2 x sep)
  then show ?case by (simp add: join_Cons)
next
  case (3 x y ys sep)
  then show ?case by simp
qed

lemma sublist_join_sublist: "sublist ms ls \<Longrightarrow> sublist (join ms sep) (join ls sep)"
proof -
  assume "sublist ms ls"
  then obtain ps ss where ls: "ls = ps @ ms @ ss"
    by (auto simp: sublist_def)
  show ?thesis
  proof (cases "ms = []")
    case True
    then show ?thesis by simp
  next
    case False
    have mid: "sublist (join ms sep) (join (ms @ ss) sep)"
    proof (cases "ss = []")
      case True
      then show ?thesis by simp
    next
      case ss: False
      show ?thesis
        unfolding join_append [OF False ss] by (rule sublist_append_rightI)
    qed
    show ?thesis
    proof (cases "ps = []")
      case True
      with mid ls show ?thesis by simp
    next
      case ps: False
      from False have "ms @ ss \<noteq> []" by simp
      from join_append [OF ps this]
      have "join ls sep = (join ps sep @ sep) @ join (ms @ ss) sep"
        by (simp add: ls)
      moreover have "sublist (join (ms @ ss) sep) ((join ps sep @ sep) @ join (ms @ ss) sep)"
        by (rule sublist_append_leftI)
      ultimately show ?thesis
        using mid sublist_order.order_trans by metis
    qed
  qed
qed

lemma sublist_join_member: "l \<in> set ls \<Longrightarrow> sublist l (join ls sep)"
proof -
  assume "l \<in> set ls"
  then obtain ps ss where "ls = ps @ [l] @ ss"
    by (auto simp: in_set_conv_decomp)
  then have "sublist [l] ls"
    by (auto simp: sublist_def)
  from sublist_join_sublist [OF this, of sep] show ?thesis by simp
qed

lemma sublist_sep:
  assumes "c \<notin> set n"
  shows "sublist n (a @ c # b) \<longleftrightarrow> sublist n a \<or> sublist n b"
proof
  assume "sublist n a \<or> sublist n b"
  then show "sublist n (a @ c # b)"
  proof
    assume "sublist n a"
    then obtain ps ss where "a = ps @ n @ ss" by (auto simp: sublist_def)
    then have "a @ c # b = ps @ n @ (ss @ c # b)" by simp
    then show ?thesis unfolding sublist_def by blast
  next
    assume "sublist n b"
    then obtain ps ss where "b = ps @ n @ ss" by (auto simp: sublist_def)
    then have "a @ c # b = (a @ c # ps) @ n @ ss" by simp
    then show ?thesis unfolding sublist_def by blast
  qed
next
  assume "sublist n (a @ c # b)"
  then consider "sublist n a" | "sublist n (c # b)"
    | n1 n2 where "n = n1 @ n2" "suffix n1 a" "prefix n2 (c # b)"
    by (auto simp: sublist_append)
  then show "sublist n a \<or> sublist n b"
  proof cases
    case 1
    then show ?thesis by simp
  next
    case 2
    then have "prefix n (c # b) \<or> sublist n b" by (simp add: sublist_Cons_right)
    then show ?thesis
    proof
      assume "prefix n (c # b)"
      with assms have "n = []" by (cases n) auto
      then show ?thesis by simp
    qed simp
  next
    case 3
    from 3(3) assms 3(1) have "n2 = []" by (cases n2) auto
    with 3 have "suffix n a" by simp
    then show ?thesis by (simp add: suffix_imp_sublist)
  qed
qed

lemma sublist_skip_left:
  assumes "n \<noteq> []" and "hd n \<notin> set x"
  shows "sublist n (x @ p) \<longleftrightarrow> sublist n p"
  using assms(2)
proof (induction x)
  case Nil
  then show ?case by simp
next
  case (Cons a x)
  from Cons.prems assms(1) have "\<not> prefix n (a # x @ p)"
    by (cases n) auto
  with Cons show ?case by (simp add: sublist_Cons_right)
qed

lemma sublist_skip_right:
  assumes "n \<noteq> []" and "last n \<notin> set y"
  shows "sublist n (p @ y) \<longleftrightarrow> sublist n p"
proof -
  have "sublist n (p @ y) \<longleftrightarrow> sublist (rev n) (rev y @ rev p)"
    by (metis rev_append sublist_rev)
  also have "\<dots> \<longleftrightarrow> sublist (rev n) (rev p)"
    using assms by (intro sublist_skip_left) (simp_all add: hd_rev)
  also have "\<dots> \<longleftrightarrow> sublist n p"
    by (rule sublist_rev)
  finally show ?thesis .
qed

lemma not_sublist_hd: "n \<noteq> [] \<Longrightarrow> hd n \<notin> set xs \<Longrightarrow> \<not> sublist n xs"
  using set_mono_sublist [of n xs] by (cases n) auto

lemma sublist_join_char:
  assumes "n \<noteq> []" and "c \<notin> set n"
  shows "sublist n (join ls [c]) \<longleftrightarrow> (\<exists>l\<in>set ls. sublist n l)"
proof (induction ls "[c]" rule: join.induct)
  case 1
  from assms(1) show ?case by simp
next
  case (2 x)
  show ?case by simp
next
  case (3 x y ys)
  have "sublist n (join (x # y # ys) [c]) \<longleftrightarrow> sublist n (x @ c # join (y # ys) [c])"
    by simp
  also have "\<dots> \<longleftrightarrow> sublist n x \<or> sublist n (join (y # ys) [c])"
    by (rule sublist_sep [OF assms(2)])
  finally show ?case using 3 by simp
qed

lemma split_lines_no_LF: "LF \<notin> set l \<Longrightarrow> split_lines l = [l]"
  by (induction l) auto

lemma split_lines_append: "LF \<notin> set l \<Longrightarrow> split_lines (l @ LF # r) = l # split_lines r"
  by (induction l) auto

lemma split_lines_join:
  "ls \<noteq> [] \<Longrightarrow> \<forall>l\<in>set ls. LF \<notin> set l \<Longrightarrow> split_lines (join ls [LF]) = ls"
proof (induction ls "[LF]" rule: join.induct)
  case 1
  then show ?case by simp
next
  case (2 x)
  then show ?case by (simp add: split_lines_no_LF)
next
  case (3 x y ys)
  then show ?case by (simp add: split_lines_append)
qed

lemma buildPhp_Some:
  "parseURL orig = Some url \<Longrightarrow>
     buildPhp parseURL orig options = Inr (join (fragments url orig options) [LF])"
  by (simp add: buildPhp_def buildPhp_lines_fragments)

lemma fragment_line_in_output:
  "parseURL orig = Some url \<Longrightarrow> l \<in> set (fragments url orig options) \<Longrightarrow>
     \<exists>out. buildPhp parseURL orig options = Inr out \<and> sublist l out"
  by (simp add: buildPhp_Some sublist_join_member)

lemma sublist_line_part: "sublist (a @ x @ b) l \<Longrightarrow> sublist x l"
  by (meson sublist_appendI sublist_order.order_trans)

lemma URL_of_examples_localhost:
  "URL_of_examples ''http://localhost:5173''
     = Some \<lparr>protocol = ''http:'', hostname = ''localhost'', port = ''5173''\<rparr>"
  by (simp add: URL_of_examples_def)

lemma digit_char_value: "d < 10 \<Longrightarrow> of_char (digit_char d) = 48 + d"
proof -
  assume "d < 10"
  then have "d \<in> {0, 1, 2, 3, 4, 5, 6, 7, 8, 9}" by auto
  then show ?thesis by (auto simp: digit_char_def)
qed

lemma digits_value_snoc:
  "digits_value (ds @ [c]) = 10 * digits_value ds + (of_char c - 48)"
  by (simp add: digits_value_def)

lemma digits_value_decimal: "digits_value (decimal n) = n"
proof (induction n rule: decimal.induct)
  case (1 n)
  show ?case
  proof (cases "n < 10")
    case True
    then show ?thesis
      by (subst decimal.simps) (simp add: digits_value_def digit_char_value)
  next
    case False
    have "n mod 10 < 10" by simp
    with False 1 show ?thesis
      by (subst decimal.simps) (simp add: digits_value_snoc digit_char_value)
  qed
qed

lemma decimal_not_Nil: "decimal n \<noteq> []"
  by (subst decimal.simps) simp

lemma digit_char_not_minus: "d < 10 \<Longrightarrow> digit_char d \<noteq> CHR ''-''"
  using digit_char_value [of d] by (auto simp del: of_char_eq_iff)

lemma hd_decimal: "hd (decimal n) \<noteq> CHR ''-''"
proof (induction n rule: decimal.induct)
  case (1 n)
  show ?case
  proof (cases "n < 10")
    case True
    then show ?thesis
      by (subst decimal.simps) (simp add: digit_char_not_minus)
  next
    case False
    with 1 show ?thesis
      by (subst decimal.simps) (simp add: decimal_not_Nil)
  qed
qed

lemma literal_value_decimal:
  "literal_value (if n < 0 then CHR ''-'' # decimal (nat (- n)) else decimal (nat n)) = n"
proof (cases "n < 0")
  case True
  then show ?thesis by (simp add: literal_value_def digits_value_decimal)
next
  case False
  obtain c ds where d: "decimal (nat n) = c # ds"
    using decimal_not_Nil [of "nat n"] by (cases "decimal (nat n)") auto
  with hd_decimal [of "nat n"] have "c \<noteq> CHR ''-''" by simp
  with False d digits_value_decimal [of "nat n"] show ?thesis
    by (simp add: literal_value_def)
qed

lemma literal_value_Number_toString:
  "literal_value (Number_toString (Integer w)) = sint w"
  using literal_value_decimal [of "sint w"] by simp

lemma URL_of_examples_mysite:
  "URL_of_examples ''https://mysite.local:3000''
     = Some \<lparr>protocol = ''https:'', hostname = ''mysite.local'', port = ''3000''\<rparr>"
  by (simp add: URL_of_examples_def)

lemma URL_of_examples_noport:
  "URL_of_examples ''https://example.test''
     = Some \<lparr>protocol = ''https:'', hostname = ''example.test'', port = ''''\<rparr>"
  by (simp add: URL_of_examples_def)

lemma URL_of_examples_wss:
  "URL_of_examples ''wss://localhost:443''
     = Some \<lparr>protocol = ''wss:'', hostname = ''localhost'', port = ''''\<rparr>"
  by (simp add: URL_of_examples_def)

lemma probe_line_in_output:
  assumes "parseURL orig = Some url"
  shows "\<exists>out. buildPhp parseURL orig options = Inr out
           \<and> sublist (''@fsockopen( '' @ [SQ] @ hostname url @ [SQ] @ '', '' @ resolved_port url
                        @ '', $errno, $errstr, 1 );'') out"
proof -
  let ?call = "''@fsockopen( '' @ [SQ] @ hostname url @ [SQ] @ '', '' @ resolved_port url
                 @ '', $errno, $errstr, 1 );''"
  have "TAB # TAB # ''$conn   = '' @ ?call \<in> set (fragments url orig options)"
    by (simp add: fragments_def probe_fragment_def)
  from fragment_line_in_output [where parseURL = parseURL, OF assms this]
  obtain out where out: "buildPhp parseURL orig options = Inr out"
    and sub: "sublist (TAB # TAB # ''$conn   = '' @ ?call) out"
    by blast
  have "sublist ?call out"
    using sublist_line_part [of "TAB # TAB # ''$conn   = ''" ?call "[]" out] sub by simp
  with out show ?thesis by blast
qed

lemma key_line_in_output:
  assumes "parseURL orig = Some url"
  shows "\<exists>out. buildPhp parseURL orig options = Inr out
           \<and> sublist (key_statement (cache_key url)) out"
proof -
  have "key_statement (cache_key url) \<in> set (fragments url orig options)"
    by (simp add: fragments_def probe_fragment_def key_statement_def cache_key_def)
  from fragment_line_in_output [where parseURL = parseURL, OF assms this]
  show ?thesis .
qed

lemma key_line_index: "buildPhp_lines url orig options ! 19 = key_statement (cache_key url)"
  by (simp add: buildPhp_lines_fragments fragments_def header_fragment_def
      detector_fragment_def probe_fragment_def key_statement_def cache_key_def)

lemma ttl_line_in_output:
  assumes "parseURL orig = Some url"
  shows "\<exists>out. buildPhp parseURL orig options = Inr out
           \<and> sublist (''set_transient( $key, (int) $result, '' @ ttl_literal options @ '' );'') out"
proof -
  let ?call = "''set_transient( $key, (int) $result, '' @ ttl_literal options @ '' );''"
  have "TAB # TAB # ?call \<in> set (fragments url orig options)"
    by (simp add: fragments_def probe_fragment_def)
  from fragment_line_in_output [where parseURL = parseURL, OF assms this]
  obtain out where out: "buildPhp parseURL orig options = Inr out"
    and sub: "sublist (TAB # TAB # ?call) out"
    by blast
  have "sublist ?call out"
    using sublist_line_part [of "[TAB, TAB]" ?call "[]" out] sub by simp
  with out show ?thesis by blast
qed

lemma decimal_10: "decimal 10 = ''10''"
  by code_simp

lemma guarded_in_output:
  assumes "sublist [existence_guard f, function_header f ty] (fragments url orig options)"
  shows "sublist (existence_guard f @ [LF] @ function_header f ty)
           (join (fragments url orig options) [LF])"
  using sublist_join_sublist [OF assms, of "[LF]"] by simp

lemma sublist_prefix_part: "sublist xs (xs @ r)"
  by simp

lemma detector_guarded:
  "sublist [existence_guard ''vite_hmr_is_dev'', function_header ''vite_hmr_is_dev'' ''bool'']
     (fragments url orig options)"
proof -
  obtain r where "detector_fragment (pattern_list options)
      = [existence_guard ''vite_hmr_is_dev'', function_header ''vite_hmr_is_dev'' ''bool''] @ r"
    by (simp add: detector_fragment_def existence_guard_def function_header_def)
  then have "fragments url orig options = header_fragment
      @ [existence_guard ''vite_hmr_is_dev'', function_header ''vite_hmr_is_dev'' ''bool'']
      @ (r @ probe_fragment (hostname url) (resolved_port url) (ttl_literal options)
         @ injector_fragment orig (reload_events options)
         @ policy_fragment (policy_text options))"
    by (simp add: fragments_def)
  then show ?thesis
    unfolding sublist_def by blast
qed

lemma probe_guarded:
  "sublist [existence_guard ''vite_hmr_is_running'',
            function_header ''vite_hmr_is_running'' ''bool'']
     (fragments url orig options)"
proof -
  obtain r where "probe_fragment (hostname url) (resolved_port url) (ttl_literal options)
      = [existence_guard ''vite_hmr_is_running'',
         function_header ''vite_hmr_is_running'' ''bool''] @ r"
    by (simp add: probe_fragment_def existence_guard_def function_header_def)
  then have "fragments url orig options
      = (header_fragment @ detector_fragment (pattern_list options))
      @ [existence_guard ''vite_hmr_is_running'',
         function_header ''vite_hmr_is_running'' ''bool'']
      @ (r @ injector_fragment orig (reload_events options)
         @ policy_fragment (policy_text options))"
    by (simp add: fragments_def)
  then show ?thesis
    unfolding sublist_def by blast
qed

lemma injector_guarded:
  "sublist [existence_guard ''vite_hmr_inject'', function_header ''vite_hmr_inject'' ''void'']
     (fragments url orig options)"
proof -
  obtain r where "injector_fragment orig (reload_events options)
      = [existence_guard ''vite_hmr_inject'', function_header ''vite_hmr_inject'' ''void''] @ r"
    by (simp add: injector_fragment_def existence_guard_def function_header_def)
  then have "fragments url orig options
      = (header_fragment @ detector_fragment (pattern_list options)
         @ probe_fragment (hostname url) (resolved_port url) (ttl_literal options))
      @ [existence_guard ''vite_hmr_inject'', function_header ''vite_hmr_inject'' ''void'']
      @ (r @ policy_fragment (policy_text options))"
    by (simp add: fragments_def)
  then show ?thesis
    unfolding sublist_def by blast
qed

lemma policy_guarded:
  assumes "csp options \<noteq> Some (CspBool False)"
  shows "sublist [existence_guard ''vite_hmr_csp'', function_header ''vite_hmr_csp'' ''void'']
     (fragments url orig options)"
proof -
  from assms have "policy_text options \<noteq> None"
    by (simp add: policy_text_def split: option.split csp_value.split)
  then obtain p where p: "policy_text options = Some p"
    by blast
  obtain r where "policy_fragment (Some p)
      = [existence_guard ''vite_hmr_csp'', function_header ''vite_hmr_csp'' ''void''] @ r"
    by (simp add: policy_fragment_def existence_guard_def function_header_def)
  with p have "fragments url orig options
      = (header_fragment @ detector_fragment (pattern_list options)
         @ probe_fragment (hostname url) (resolved_port url) (ttl_literal options)
         @ injector_fragment orig (reload_events options))
      @ [existence_guard ''vite_hmr_csp'', function_header ''vite_hmr_csp'' ''void'']
      @ r"
    by (simp add: fragments_def)
  then show ?thesis
    unfolding sublist_def by blast
qed

lemma subscription_block_starts_TAB:
  "l \<in> set (subscription_block orig evs) \<Longrightarrow> \<exists>r. l = TAB # r"
  by (auto simp: subscription_block_def listener_def listener_registration_def
      hot_context_import_def hot_context_statement_def split: if_splits)

lemma policy_lines_absent:
  assumes "csp options = Some (CspBool False)"
  shows "existence_guard ''vite_hmr_csp'' \<notin> set (fragments url orig options)"
    and "function_header ''vite_hmr_csp'' ''void'' \<notin> set (fragments url orig options)"
proof -
  from assms have p: "policy_text options = None"
    by (simp add: policy_text_def)
  have g: "existence_guard ''vite_hmr_csp'' \<notin> set (subscription_block orig (reload_events options))"
    using subscription_block_starts_TAB [of "existence_guard ''vite_hmr_csp''"]
    by (auto simp: existence_guard_def)
  show "existence_guard ''vite_hmr_csp'' \<notin> set (fragments url orig options)"
    using g by (simp add: fragments_def p policy_fragment_def header_fragment_def
        detector_fragment_def probe_fragment_def injector_fragment_def
        injector_registration_def existence_guard_def)
  have h: "function_header ''vite_hmr_csp'' ''void''
      \<notin> set (subscription_block orig (reload_events options))"
    by (auto simp: subscription_block_def listener_def listener_registration_def
        hot_context_import_def hot_context_statement_def function_header_def)
  show "function_header ''vite_hmr_csp'' ''void'' \<notin> set (fragments url orig options)"
    using h by (simp add: fragments_def p policy_fragment_def header_fragment_def
        detector_fragment_def probe_fragment_def injector_fragment_def
        injector_registration_def function_header_def)
qed

lemma set_join: "set (join ls sep) \<subseteq> set sep \<union> (\<Union>l\<in>set ls. set l)"
  by (induction ls sep rule: join.induct) auto

lemma pattern_list_LF_free:
  assumes "\<forall>s\<in>set (supplied_patterns options). LF \<notin> set s"
  shows "LF \<notin> set (pattern_list options)"
proof
  assume "LF \<in> set (pattern_list options)"
  with set_join [of "map quoted ([''local'', ''test'', ''dev''] @ supplied_patterns options)" "'', ''"]
  have "LF \<in> set '', '' \<union> (\<Union>l\<in>set (map quoted ([''local'', ''test'', ''dev'']
      @ supplied_patterns options)). set l)"
    unfolding pattern_list_def by blast
  with assms show False
    by (auto simp: quoted_def split: if_splits)
qed

lemma subscription_block_LF_free:
  assumes "LF \<notin> set orig" and "\<forall>s\<in>set evs. LF \<notin> set s"
  shows "\<forall>l\<in>set (subscription_block orig evs). LF \<notin> set l"
  using assms
  by (auto simp: subscription_block_def listener_def listener_registration_def
      hot_context_import_def hot_context_statement_def)

lemma policy_fragment_LF_free:
  assumes "\<forall>s. csp options = Some (CspString s) \<longrightarrow> LF \<notin> set s"
  shows "\<forall>l\<in>set (policy_fragment (policy_text options)). LF \<notin> set l"
  using assms
  by (auto simp: policy_fragment_def policy_text_def policy_registration_def default_policy_def
      split: option.split csp_value.split)

lemma fragments_LF_free:
  assumes "\<forall>s\<in>set (interpolated url orig options). LF \<notin> set s"
  shows "\<forall>l\<in>set (fragments url orig options). LF \<notin> set l"
proof -
  from assms have pl: "LF \<notin> set (pattern_list options)"
    by (intro pattern_list_LF_free) (simp add: interpolated_def)
  from assms have sb: "\<forall>l\<in>set (subscription_block orig (reload_events options)). LF \<notin> set l"
    by (intro subscription_block_LF_free) (simp_all add: interpolated_def)
  from assms have pf: "\<forall>l\<in>set (policy_fragment (policy_text options)). LF \<notin> set l"
    by (intro policy_fragment_LF_free) (auto simp: interpolated_def)
  from assms have base: "LF \<notin> set orig" "LF \<notin> set (hostname url)"
    "LF \<notin> set (resolved_port url)" "LF \<notin> set (ttl_literal options)"
    by (simp_all add: interpolated_def)
  have "\<forall>l\<in>set header_fragment. LF \<notin> set l"
    by (simp add: header_fragment_def)
  moreover have "\<forall>l\<in>set (detector_fragment (pattern_list options)). LF \<notin> set l"
    using pl by (simp add: detector_fragment_def)
  moreover have "\<forall>l\<in>set (probe_fragment (hostname url) (resolved_port url)
      (ttl_literal options)). LF \<notin> set l"
    using base by (simp add: probe_fragment_def)
  moreover have "\<forall>l\<in>set (injector_fragment orig (reload_events options)). LF \<notin> set l"
    using base sb by (auto simp: injector_fragment_def injector_registration_def)
  ultimately show ?thesis
    using pf by (auto simp: fragments_def)
qed

lemma fragments_not_Nil: "fragments url orig options \<noteq> []"
  by (simp add: fragments_def header_fragment_def)

lemma split_lines_output:
  assumes "\<forall>s\<in>set (interpolated url orig options). LF \<notin> set s"
  shows "split_lines (join (fragments url orig options) [LF]) = fragments url orig options"
  using split_lines_join [OF fragments_not_Nil fragments_LF_free [OF assms]] .

lemma count_injector_registration:
  "count_list (fragments url orig options) injector_registration = 1"
proof -
  have sb: "count_list (subscription_block orig (reload_events options)) injector_registration = 0"
    using subscription_block_starts_TAB [of injector_registration]
    by (auto simp: count_list_0_iff injector_registration_def)
  have pf: "count_list (policy_fragment (policy_text options)) injector_registration = 0"
    by (simp add: policy_fragment_def policy_registration_def injector_registration_def
        split: option.split)
  have "count_list header_fragment injector_registration = 0"
    by (simp add: header_fragment_def injector_registration_def)
  moreover have "count_list (detector_fragment (pattern_list options)) injector_registration = 0"
    by (simp add: detector_fragment_def injector_registration_def)
  moreover have "count_list (probe_fragment (hostname url) (resolved_port url)
      (ttl_literal options)) injector_registration = 0"
    by (simp add: probe_fragment_def injector_registration_def)
  moreover have "count_list (injector_fragment orig (reload_events options))
      injector_registration = 1"
    using sb by (simp add: injector_fragment_def) (simp add: injector_registration_def)
  ultimately show ?thesis
    using pf by (simp add: fragments_def)
qed

lemma count_policy_registration:
  "count_list (fragments url orig options) policy_registration
     = (if csp options = Some (CspBool False) then 0 else 1)"
proof -
  have sb: "count_list (subscription_block orig (reload_events options)) policy_registration = 0"
    using subscription_block_starts_TAB [of policy_registration]
    by (auto simp: count_list_0_iff policy_registration_def)
  have pn: "policy_text options = None \<longleftrightarrow> csp options = Some (CspBool False)"
    by (simp add: policy_text_def split: option.split csp_value.split)
  have pf: "count_list (policy_fragment (policy_text options)) policy_registration
      = (if csp options = Some (CspBool False) then 0 else 1)"
  proof (cases "policy_text options")
    case None
    with pn show ?thesis by (simp add: policy_fragment_def)
  next
    case (Some p)
    with pn have "csp options \<noteq> Some (CspBool False)" by auto
    with Some show ?thesis
      by (simp add: policy_fragment_def) (simp add: policy_registration_def)
  qed
  have "count_list header_fragment policy_registration = 0"
    by (simp add: header_fragment_def policy_registration_def)
  moreover have "count_list (detector_fragment (pattern_list options)) policy_registration = 0"
    by (simp add: detector_fragment_def policy_registration_def)
  moreover have "count_list (probe_fragment (hostname url) (resolved_port url)
      (ttl_literal options)) policy_registration = 0"
    by (simp add: probe_fragment_def policy_registration_def)
  moreover have "count_list (injector_fragment orig (reload_events options))
      policy_registration = 0"
    using sb by (simp add: injector_fragment_def)
      (simp add: injector_registration_def policy_registration_def)
  ultimately show ?thesis
    using pf by (simp add: fragments_def)
qed

lemma injector_registration_place:
  "sublist [TAB # ''}'', ''}'', injector_registration] (fragments url orig options)"
proof -
  have "fragments url orig options
      = (header_fragment @ detector_fragment (pattern_list options)
         @ probe_fragment (hostname url) (resolved_port url) (ttl_literal options)
         @ [ ''if ( ! function_exists( '' @ [SQ] @ ''vite_hmr_inject'' @ [SQ] @ '' ) ) {'',
             TAB # ''function vite_hmr_inject(): void {'',
             TAB # TAB # ''if ( ! vite_hmr_is_dev() || ! vite_hmr_is_running() ) { return; }'',
             TAB # TAB # ''echo '' @ [SQ] @ ''<script type='' @ [CHR 0x22] @ ''module''
               @ [CHR 0x22] @ '' src='' @ [CHR 0x22] @ orig @ ''/@vite/client''
               @ [CHR 0x22] @ ''></script>'' @ [SQ] @ '' . '' @ [CHR 0x22, BSL] @ ''n''
               @ [CHR 0x22] @ '';'' ]
         @ subscription_block orig (reload_events options))
      @ [TAB # ''}'', ''}'', injector_registration]
      @ ('''' # policy_fragment (policy_text options))"
    by (simp add: fragments_def injector_fragment_def)
  then show ?thesis
    unfolding sublist_def by blast
qed

lemma policy_registration_place:
  assumes "csp options \<noteq> Some (CspBool False)"
  shows "sublist [TAB # ''}'', ''}'', policy_registration] (fragments url orig options)"
proof -
  from assms have "policy_text options \<noteq> None"
    by (simp add: policy_text_def split: option.split csp_value.split)
  then obtain p where p: "policy_text options = Some p"
    by blast
  have "policy_fragment (Some p)
      = [ ''if ( ! function_exists( '' @ [SQ] @ ''vite_hmr_csp'' @ [SQ] @ '' ) ) {'',
          TAB # ''function vite_hmr_csp(): void {'',
          TAB # TAB # ''if ( ! vite_hmr_is_dev() ) { return; }'',
          TAB # TAB # ''header( '' @ [CHR 0x22] @ p @ [CHR 0x22] @ '' );'' ]
        @ [TAB # ''}'', ''}'', policy_registration] @ ['''']"
    by (simp add: policy_fragment_def)
  then have "fragments url orig options
      = (header_fragment @ detector_fragment (pattern_list options)
         @ probe_fragment (hostname url) (resolved_port url) (ttl_literal options)
         @ injector_fragment orig (reload_events options)
         @ [ ''if ( ! function_exists( '' @ [SQ] @ ''vite_hmr_csp'' @ [SQ] @ '' ) ) {'',
             TAB # ''function vite_hmr_csp(): void {'',
             TAB # TAB # ''if ( ! vite_hmr_is_dev() ) { return; }'',
             TAB # TAB # ''header( '' @ [CHR 0x22] @ p @ [CHR 0x22] @ '' );'' ])
        @ [TAB # ''}'', ''}'', policy_registration] @ ['''']"
    by (simp add: fragments_def p)
  then show ?thesis
    unfolding sublist_def by blast
qed

lemma filter_listener_lines:
  "filter listener_line (concat (map listener evs)) = map listener_registration evs"
  by (induction evs) (simp_all add: listener_def listener_line_def listener_registration_def)

lemma filter_subscription_block:
  "filter listener_line (subscription_block orig evs) = map listener_registration evs"
  by (simp add: subscription_block_def filter_listener_lines)
    (simp add: listener_line_def hot_context_import_def hot_context_statement_def)

lemma filter_policy_fragment: "filter listener_line (policy_fragment pol) = []"
  by (simp add: policy_fragment_def listener_line_def policy_registration_def split: option.split)

lemma filter_fragments:
  "filter listener_line (fragments url orig options)
     = map listener_registration (reload_events options)"
proof -
  have "filter listener_line header_fragment = []"
    by (simp add: header_fragment_def listener_line_def)
  moreover have "filter listener_line (detector_fragment (pattern_list options)) = []"
    by (simp add: detector_fragment_def listener_line_def)
  moreover have "filter listener_line (probe_fragment (hostname url) (resolved_port url)
      (ttl_literal options)) = []"
    by (simp add: probe_fragment_def listener_line_def)
  moreover have "filter listener_line (injector_fragment orig (reload_events options))
      = map listener_registration (reload_events options)"
    by (simp add: injector_fragment_def filter_subscription_block)
      (simp add: listener_line_def injector_registration_def)
  ultimately show ?thesis
    by (simp add: fragments_def filter_policy_fragment)
qed

lemma no_hot_context_line:
  assumes "reload_events options = []"
  shows "\<forall>l\<in>set (fragments url orig options). \<not> hot_context_line l"
proof -
  have "\<forall>l\<in>set header_fragment. \<not> hot_context_line l"
    by (simp add: header_fragment_def hot_context_line_def listener_line_def
        hot_context_statement_def)
  moreover have "\<forall>l\<in>set (detector_fragment (pattern_list options)). \<not> hot_context_line l"
    by (simp add: detector_fragment_def hot_context_line_def listener_line_def
        hot_context_statement_def)
  moreover have "\<forall>l\<in>set (probe_fragment (hostname url) (resolved_port url)
      (ttl_literal options)). \<not> hot_context_line l"
    by (simp add: probe_fragment_def hot_context_line_def listener_line_def
        hot_context_statement_def)
  moreover have "\<forall>l\<in>set (injector_fragment orig []). \<not> hot_context_line l"
    by (simp add: injector_fragment_def subscription_block_def hot_context_line_def
        listener_line_def hot_context_statement_def injector_registration_def)
  moreover have "\<forall>l\<in>set (policy_fragment (policy_text options)). \<not> hot_context_line l"
    by (cases "policy_text options")
      (simp_all add: policy_fragment_def hot_context_line_def listener_line_def
        hot_context_statement_def policy_registration_def)
  ultimately show ?thesis
    using assms by (auto simp: fragments_def)
qed

lemma hot_context_statement_present:
  assumes "reload_events options \<noteq> []"
  shows "hot_context_statement \<in> set (fragments url orig options)"
  using assms by (simp add: fragments_def injector_fragment_def subscription_block_def)

lemma detector_fragment_lines:
  \<open>detector_fragment tlds =
    [ ''if ( ! function_exists( \'vite_hmr_is_dev\' ) ) {'',
      TAB # ''function vite_hmr_is_dev(): bool {'',
      TAB # TAB # ''$host = $_SERVER[\'HTTP_HOST\'] ?? '' @ [SQ, SQ] @ '';'',
      TAB # TAB # ''if ( $host === \'localhost\' || $host === \'127.0.0.1\' ) { return true; }'',
      foreach_line tlds,
      TAB # TAB # TAB # ''if ( preg_match( \'/'' @ [BSL, BSL]
        @ ''.\' . $tld . \'$/i\', $host ) ) { return true; }'',
      TAB # TAB # ''}'',
      TAB # TAB # ''return false;'',
      TAB # ''}'',
      ''}'',
      '''' ]\<close>
  by (simp add: detector_fragment_def foreach_line_def)

lemma probe_fragment_lines:
  \<open>probe_fragment h p ttl =
    [ ''if ( ! function_exists( \'vite_hmr_is_running\' ) ) {'',
      TAB # ''function vite_hmr_is_running(): bool {'',
      key_statement (''vite_hmr_'' @ p),
      TAB # TAB # ''$cached = get_transient( $key );'',
      TAB # TAB # ''if ( $cached !== false ) { return (bool) $cached; }'',
      fsockopen_line h p,
      TAB # TAB # ''$result = is_resource( $conn );'',
      TAB # TAB # ''if ( $result ) { fclose( $conn ); }'',
      set_transient_line ttl,
      TAB # TAB # ''return $result;'',
      TAB # ''}'',
      ''}'',
      '''' ]\<close>
  by (simp add: probe_fragment_def key_statement_def fsockopen_line_def set_transient_line_def)

lemma injector_fragment_lines:
  \<open>injector_fragment orig events =
    [ ''if ( ! function_exists( \'vite_hmr_inject\' ) ) {'',
      TAB # ''function vite_hmr_inject(): void {'',
      TAB # TAB # ''if ( ! vite_hmr_is_dev() || ! vite_hmr_is_running() ) { return; }'',
      client_script_line orig ]
    @ subscription_block orig events
    @ [ TAB # ''}'',
        ''}'',
        ''add_action( \'wp_head\', \'vite_hmr_inject\', 1 );'',
        '''' ]\<close>
  by (simp add: injector_fragment_def client_script_line_def injector_registration_def)

lemma policy_fragment_lines:
  \<open>policy_fragment (Some policy) =
     [ ''if ( ! function_exists( \'vite_hmr_csp\' ) ) {'',
       TAB # ''function vite_hmr_csp(): void {'',
       TAB # TAB # ''if ( ! vite_hmr_is_dev() ) { return; }'',
       header_line policy,
       TAB # ''}'',
       ''}'',
       ''add_action( \'send_headers\', \'vite_hmr_csp\', 1 );'',
       '''' ]\<close>
  by (simp add: policy_fragment_def header_line_def policy_registration_def)

lemma sublist_between:
  assumes "c \<notin> set n" and "d \<notin> set n"
  shows "sublist n (a @ c # u @ d # b) \<longleftrightarrow> sublist n a \<or> sublist n u \<or> sublist n b"
  using sublist_sep [OF assms(1), of a "u @ d # b"] sublist_sep [OF assms(2), of u b]
  by simp

lemma sublist_padded:
  assumes "n \<noteq> []" and "hd n \<notin> set x" and "last n \<notin> set y"
  shows "sublist n (x @ u @ y) \<longleftrightarrow> sublist n u"
  using sublist_skip_left [OF assms(1,2), of "u @ y"] sublist_skip_right [OF assms(1,3), of u]
  by simp

lemma foreach_line_sublist:
  assumes "n \<noteq> []" and "CHR ''['' \<notin> set n" and "CHR '']'' \<notin> set n"
    and "hd n \<noteq> CHR '' ''" and "last n \<noteq> CHR '' ''"
  shows "sublist n (foreach_line tlds) \<longleftrightarrow>
     sublist n (TAB # TAB # ''foreach ( '') \<or> sublist n tlds \<or> sublist n '' as $tld ) {''"
proof -
  have eq: "foreach_line tlds
      = (TAB # TAB # ''foreach ( '') @ CHR ''['' # ('' '' @ tlds @ '' '') @ CHR '']'' # '' as $tld ) {''"
    by (simp add: foreach_line_def)
  have "sublist n (foreach_line tlds) \<longleftrightarrow>
      sublist n (TAB # TAB # ''foreach ( '') \<or> sublist n ('' '' @ tlds @ '' '')
      \<or> sublist n '' as $tld ) {''"
    by (simp only: eq sublist_between [OF assms(2,3)])
  moreover have "sublist n ('' '' @ tlds @ '' '') \<longleftrightarrow> sublist n tlds"
    using assms by (intro sublist_padded) simp_all
  ultimately show ?thesis by simp
qed

lemma fsockopen_line_sublist:
  assumes "n \<noteq> []" and "CHR ''('' \<notin> set n" and "CHR '','' \<notin> set n"
    and "hd n \<notin> set ('' '' @ [SQ])" and "last n \<noteq> SQ"
  shows "sublist n (fsockopen_line h p) \<longleftrightarrow>
     sublist n (TAB # TAB # ''$conn   = @fsockopen'') \<or> sublist n h
     \<or> sublist n ('' '' @ p @ '', $errno, $errstr, 1 );'')"
proof -
  have eq: "fsockopen_line h p
      = (TAB # TAB # ''$conn   = @fsockopen'') @ CHR ''('' # (('' '' @ [SQ]) @ h @ [SQ])
        @ CHR '','' # ('' '' @ p @ '', $errno, $errstr, 1 );'')"
    by (simp add: fsockopen_line_def)
  have "sublist n (fsockopen_line h p) \<longleftrightarrow>
      sublist n (TAB # TAB # ''$conn   = @fsockopen'') \<or> sublist n (('' '' @ [SQ]) @ h @ [SQ])
      \<or> sublist n ('' '' @ p @ '', $errno, $errstr, 1 );'')"
    by (simp only: eq sublist_between [OF assms(2,3)])
  moreover have "sublist n (('' '' @ [SQ]) @ h @ [SQ]) \<longleftrightarrow> sublist n h"
    using assms by (intro sublist_padded) simp_all
  ultimately show ?thesis by simp
qed

lemma set_transient_line_sublist:
  assumes "n \<noteq> []" and "CHR '','' \<notin> set n" and "CHR '')'' \<notin> set n"
    and "hd n \<noteq> CHR '' ''" and "last n \<noteq> CHR '' ''"
  shows "sublist n (set_transient_line ttl) \<longleftrightarrow>
     sublist n (TAB # TAB # ''set_transient( $key, (int) $result'') \<or> sublist n ttl
     \<or> sublist n '';''"
proof -
  have eq: "set_transient_line ttl
      = (TAB # TAB # ''set_transient( $key, (int) $result'') @ CHR '','' # ('' '' @ ttl @ '' '')
        @ CHR '')'' # '';''"
    by (simp add: set_transient_line_def)
  have "sublist n (set_transient_line ttl) \<longleftrightarrow>
      sublist n (TAB # TAB # ''set_transient( $key, (int) $result'')
      \<or> sublist n ('' '' @ ttl @ '' '') \<or> sublist n '';''"
    by (simp only: eq sublist_between [OF assms(2,3)])
  moreover have "sublist n ('' '' @ ttl @ '' '') \<longleftrightarrow> sublist n ttl"
    using assms by (intro sublist_padded) simp_all
  ultimately show ?thesis by simp
qed

lemma client_script_line_sublist:
  assumes "CHR 0x22 \<notin> set n" and "CHR ''/'' \<notin> set n"
  shows \<open>sublist n (client_script_line orig) \<longleftrightarrow>
     sublist n (TAB # TAB # ''echo \'<script type="module" src='') \<or> sublist n orig
     \<or> sublist n (''@vite/client"></script>\' . "'' @ [BSL] @ ''n";'')\<close>
proof -
  have eq: \<open>client_script_line orig
      = (TAB # TAB # ''echo \'<script type="module" src='') @ CHR 0x22 # orig
        @ CHR ''/'' # (''@vite/client"></script>\' . "'' @ [BSL] @ ''n";'')\<close>
    by (simp add: client_script_line_def)
  show ?thesis
    by (simp only: eq sublist_between [OF assms])
qed

lemma hot_context_import_sublist:
  assumes "CHR 0x22 \<notin> set n" and "CHR ''/'' \<notin> set n"
  shows \<open>sublist n (hot_context_import orig) \<longleftrightarrow>
     sublist n (TAB # TAB # ''echo \'import { createHotContext } from '') \<or> sublist n orig
     \<or> sublist n (''@vite/client";\' . "'' @ [BSL] @ ''n";'')\<close>
proof -
  have eq: \<open>hot_context_import orig
      = (TAB # TAB # ''echo \'import { createHotContext } from '') @ CHR 0x22 # orig
        @ CHR ''/'' # (''@vite/client";\' . "'' @ [BSL] @ ''n";'')\<close>
    by (simp add: hot_context_import_def)
  show ?thesis
    by (simp only: eq sublist_between [OF assms])
qed

lemma listener_registration_sublist:
  assumes "CHR 0x22 \<notin> set n"
  shows \<open>sublist n (listener_registration event) \<longleftrightarrow>
     sublist n (TAB # TAB # ''echo \'hot.on('') \<or> sublist n event
     \<or> sublist n ('', () => {\' . "'' @ [BSL] @ ''n";'')\<close>
proof -
  have eq: \<open>listener_registration event
      = (TAB # TAB # ''echo \'hot.on('') @ CHR 0x22 # event
        @ CHR 0x22 # ('', () => {\' . "'' @ [BSL] @ ''n";'')\<close>
    by (simp add: listener_registration_def)
  show ?thesis
    by (simp only: eq sublist_between [OF assms assms])
qed

lemma header_line_sublist:
  assumes "CHR 0x22 \<notin> set n"
  shows \<open>sublist n (header_line policy) \<longleftrightarrow>
     sublist n (TAB # TAB # ''header( '') \<or> sublist n policy \<or> sublist n '' );''\<close>
proof -
  have eq: \<open>header_line policy
      = (TAB # TAB # ''header( '') @ CHR 0x22 # policy @ CHR 0x22 # '' );''\<close>
    by (simp add: header_line_def)
  show ?thesis
    by (simp only: eq sublist_between [OF assms assms])
qed

lemma quoted_sublist:
  assumes "n \<noteq> []" and "hd n \<noteq> SQ" and "last n \<noteq> SQ"
  shows "sublist n (quoted t) \<longleftrightarrow> sublist n t"
proof -
  have "quoted t = [SQ] @ t @ [SQ]" by (simp add: quoted_def)
  with sublist_padded [OF assms(1), of "[SQ]" "[SQ]" t] assms show ?thesis by simp
qed

lemma join_comma_sublist:
  assumes "n \<noteq> []" and "CHR '','' \<notin> set n" and "hd n \<noteq> CHR '' ''"
  shows "sublist n (join ls '', '') \<longleftrightarrow> (\<exists>l\<in>set ls. sublist n l)"
proof (induction ls "'', ''" rule: join.induct)
  case 1
  from assms(1) show ?case by simp
next
  case (2 x)
  show ?case by simp
next
  case (3 x y ys)
  have "sublist n (join (x # y # ys) '', '')
      \<longleftrightarrow> sublist n (x @ CHR '','' # ('' '' @ join (y # ys) '', ''))"
    by simp
  also have "\<dots> \<longleftrightarrow> sublist n x \<or> sublist n ('' '' @ join (y # ys) '', '')"
    by (rule sublist_sep [OF assms(2)])
  also have "sublist n ('' '' @ join (y # ys) '', '') \<longleftrightarrow> sublist n (join (y # ys) '', '')"
    using assms by (intro sublist_skip_left) simp_all
  finally show ?case using 3 by simp
qed

lemma pattern_list_sublist:
  assumes "n \<noteq> []" and "CHR '','' \<notin> set n" and "hd n \<notin> set ('' '' @ [SQ])" and "last n \<noteq> SQ"
  shows "sublist n (pattern_list options) \<longleftrightarrow>
     (\<exists>t\<in>set ([''local'', ''test'', ''dev''] @ supplied_patterns options). sublist n t)"
proof -
  have "sublist n (pattern_list options) \<longleftrightarrow>
      (\<exists>l\<in>set (map quoted ([''local'', ''test'', ''dev''] @ supplied_patterns options)).
         sublist n l)"
    unfolding pattern_list_def using assms by (intro join_comma_sublist) simp_all
  also have "\<dots> \<longleftrightarrow>
      (\<exists>t\<in>set ([''local'', ''test'', ''dev''] @ supplied_patterns options). sublist n (quoted t))"
    by (simp only: set_map bex_simps(7))
  also have "\<dots> \<longleftrightarrow>
      (\<exists>t\<in>set ([''local'', ''test'', ''dev''] @ supplied_patterns options). sublist n t)"
    using assms by (simp add: quoted_sublist)
  finally show ?thesis .
qed


lemma plain_needleD:
  assumes "plain_needle n"
  shows "n \<noteq> []" and "CHR ''['' \<notin> set n" and "CHR '']'' \<notin> set n" and "CHR ''('' \<notin> set n"
    and "CHR '')'' \<notin> set n" and "CHR '','' \<notin> set n" and "CHR ''/'' \<notin> set n"
    and "CHR 0x22 \<notin> set n" and "LF \<notin> set n"
    and "hd n \<noteq> CHR '' ''" and "hd n \<noteq> SQ" and "last n \<noteq> CHR '' ''" and "last n \<noteq> SQ"
  using assms by (auto simp: plain_needle_def)

lemma foreach_line_needle:
  assumes "plain_needle n"
  shows "sublist n (foreach_line tlds) \<longleftrightarrow> sublist n (foreach_line []) \<or> sublist n tlds"
  using plain_needleD [OF assms]
  by (simp add: foreach_line_sublist [of n tlds] foreach_line_sublist [of n "[]"]) blast

lemma fsockopen_tail_needle:
  assumes "plain_needle n"
  shows "sublist n ('' '' @ p @ '', $errno, $errstr, 1 );'')
     \<longleftrightarrow> sublist n p \<or> sublist n '' $errno, $errstr, 1 );''"
proof -
  note n = plain_needleD [OF assms]
  have "sublist n ('' '' @ p @ CHR '','' # '' $errno, $errstr, 1 );'')
      \<longleftrightarrow> sublist n ('' '' @ p) \<or> sublist n '' $errno, $errstr, 1 );''"
    using sublist_sep [OF n(6), of "'' '' @ p" "'' $errno, $errstr, 1 );''"] by simp
  moreover have "sublist n ('' '' @ p) \<longleftrightarrow> sublist n p"
    using n by (intro sublist_skip_left) simp_all
  ultimately show ?thesis by simp
qed

lemma fsockopen_line_needle:
  assumes "plain_needle n"
  shows "sublist n (fsockopen_line h p)
     \<longleftrightarrow> sublist n (fsockopen_line [] []) \<or> sublist n h \<or> sublist n p"
proof -
  note n = plain_needleD [OF assms]
  have *: "sublist n (fsockopen_line h' p') \<longleftrightarrow>
     sublist n (TAB # TAB # ''$conn   = @fsockopen'') \<or> sublist n h'
     \<or> sublist n p' \<or> sublist n '' $errno, $errstr, 1 );''" for h' p'
  proof -
    have "sublist n (fsockopen_line h' p') \<longleftrightarrow>
       sublist n (TAB # TAB # ''$conn   = @fsockopen'') \<or> sublist n h'
       \<or> sublist n ('' '' @ p' @ '', $errno, $errstr, 1 );'')"
      using n by (intro fsockopen_line_sublist) simp_all
    with fsockopen_tail_needle [OF assms, of p'] show ?thesis
      by blast
  qed
  from n(1) show ?thesis
    by (simp add: * [of h p] * [of "[]" "[]"]) blast
qed

lemma set_transient_line_needle:
  assumes "plain_needle n"
  shows "sublist n (set_transient_line ttl)
     \<longleftrightarrow> sublist n (set_transient_line []) \<or> sublist n ttl"
  using plain_needleD [OF assms]
  by (simp add: set_transient_line_sublist [of n ttl] set_transient_line_sublist [of n "[]"])
    blast

lemma client_script_line_needle:
  assumes "plain_needle n"
  shows "sublist n (client_script_line orig)
     \<longleftrightarrow> sublist n (client_script_line []) \<or> sublist n orig"
  using plain_needleD [OF assms]
  by (simp add: client_script_line_sublist [of n orig] client_script_line_sublist [of n "[]"])
    blast

lemma hot_context_import_needle:
  assumes "plain_needle n"
  shows "sublist n (hot_context_import orig)
     \<longleftrightarrow> sublist n (hot_context_import []) \<or> sublist n orig"
  using plain_needleD [OF assms]
  by (simp add: hot_context_import_sublist [of n orig] hot_context_import_sublist [of n "[]"])
    blast

lemma listener_registration_needle:
  assumes "plain_needle n"
  shows "sublist n (listener_registration event)
     \<longleftrightarrow> sublist n (listener_registration []) \<or> sublist n event"
  using plain_needleD [OF assms]
  by (simp add: listener_registration_sublist [of n event]
      listener_registration_sublist [of n "[]"]) blast

lemma header_line_needle:
  assumes "plain_needle n"
  shows "sublist n (header_line policy) \<longleftrightarrow> sublist n (header_line []) \<or> sublist n policy"
  using plain_needleD [OF assms]
  by (simp add: header_line_sublist [of n policy] header_line_sublist [of n "[]"]) blast

lemma pattern_list_needle:
  assumes "plain_needle n"
  shows "sublist n (pattern_list options) \<longleftrightarrow>
     sublist n (join (map quoted [''local'', ''test'', ''dev'']) '', '')
     \<or> (\<exists>t\<in>set (supplied_patterns options). sublist n t)"
proof -
  note n = plain_needleD [OF assms]
  have "sublist n (join (map quoted [''local'', ''test'', ''dev'']) '', '')
      \<longleftrightarrow> (\<exists>l\<in>set (map quoted [''local'', ''test'', ''dev'']). sublist n l)"
    using n by (intro join_comma_sublist) simp_all
  also have "\<dots> \<longleftrightarrow> (\<exists>t\<in>set [''local'', ''test'', ''dev'']. sublist n t)"
    using n by (simp add: quoted_sublist)
  finally have base: "sublist n (join (map quoted [''local'', ''test'', ''dev'']) '', '')
      \<longleftrightarrow> (\<exists>t\<in>set [''local'', ''test'', ''dev'']. sublist n t)" .
  have "sublist n (pattern_list options) \<longleftrightarrow>
     (\<exists>t\<in>set ([''local'', ''test'', ''dev''] @ supplied_patterns options). sublist n t)"
    using n by (intro pattern_list_sublist) simp_all
  with base show ?thesis
    by (simp only: set_append bex_Un)
qed

lemma detector_needle:
  assumes "plain_needle n" and "\<forall>l\<in>set fixed_lines. \<not> sublist n l"
  shows "(\<exists>l\<in>set (detector_fragment (pattern_list options)). sublist n l)
     \<longleftrightarrow> (\<exists>t\<in>set (supplied_patterns options). sublist n t)"
proof -
  let ?base = "join (map quoted [''local'', ''test'', ''dev'']) '', ''"
  from assms(2) have "\<forall>l\<in>set (detector_fragment ?base). \<not> sublist n l"
    by (simp add: fixed_lines_def)
  then show ?thesis
    using foreach_line_needle [OF assms(1), of ?base]
      foreach_line_needle [OF assms(1), of "pattern_list options"]
      pattern_list_needle [OF assms(1), of options]
    unfolding detector_fragment_lines by simp
qed

lemma probe_needle:
  assumes "plain_needle n" and "\<forall>l\<in>set fixed_lines. \<not> sublist n l"
    and "\<not> sublist n (key_statement (''vite_hmr_'' @ p))"
  shows "(\<exists>l\<in>set (probe_fragment h p ttl). sublist n l)
     \<longleftrightarrow> sublist n h \<or> sublist n p \<or> sublist n ttl"
proof -
  from assms(2) have "\<forall>l\<in>set (probe_fragment [] [] []). \<not> sublist n l"
    by (simp add: fixed_lines_def)
  then show ?thesis
    using assms(3) fsockopen_line_needle [OF assms(1), of h p]
      set_transient_line_needle [OF assms(1), of ttl]
    unfolding probe_fragment_lines by simp
qed

lemma listeners_needle:
  assumes "plain_needle n" and "\<forall>l\<in>set (listener []). \<not> sublist n l"
  shows "(\<exists>l\<in>set (concat (map listener evs)). sublist n l) \<longleftrightarrow> (\<exists>e\<in>set evs. sublist n e)"
proof -
  have "(\<exists>l\<in>set (listener e). sublist n l) \<longleftrightarrow> sublist n e" for e
    using assms(2) listener_registration_needle [OF assms(1), of e]
    unfolding listener_def by simp
  then show ?thesis by simp
qed

lemma subscription_needle:
  assumes "plain_needle n" and "\<forall>l\<in>set (subscription_block [] [[]]). \<not> sublist n l"
  shows "(\<exists>l\<in>set (subscription_block orig evs). sublist n l)
     \<longleftrightarrow> evs \<noteq> [] \<and> (sublist n orig \<or> (\<exists>e\<in>set evs. sublist n e))"
proof (cases "evs = []")
  case True
  then show ?thesis by (simp add: subscription_block_def)
next
  case False
  from assms(2) have fixed: "\<forall>l\<in>set (listener []). \<not> sublist n l"
    by (simp add: subscription_block_def)
  from False assms(2) show ?thesis
    using hot_context_import_needle [OF assms(1), of orig]
      listeners_needle [OF assms(1) fixed, of evs]
    by (simp add: subscription_block_def)
qed

lemma injector_needle:
  assumes "plain_needle n" and "\<forall>l\<in>set fixed_lines. \<not> sublist n l"
  shows "(\<exists>l\<in>set (injector_fragment orig evs). sublist n l)
     \<longleftrightarrow> sublist n orig \<or> (\<exists>e\<in>set evs. sublist n e)"
proof -
  from assms(2) have fixed: "\<forall>l\<in>set (injector_fragment [] [[]]). \<not> sublist n l"
    by (simp add: fixed_lines_def)
  then have sb: "\<forall>l\<in>set (subscription_block [] [[]]). \<not> sublist n l"
    by (simp add: injector_fragment_def)
  from fixed show ?thesis
    using client_script_line_needle [OF assms(1), of orig]
      subscription_needle [OF assms(1) sb, of orig evs]
    unfolding injector_fragment_lines by (cases "evs = []") simp_all
qed

lemma policy_needle:
  assumes "plain_needle n" and "\<forall>l\<in>set (policy_fragment (Some [])). \<not> sublist n l"
  shows "(\<exists>l\<in>set (policy_fragment (Some pol)). sublist n l) \<longleftrightarrow> sublist n pol"
  using assms(2) header_line_needle [OF assms(1), of pol]
  unfolding policy_fragment_lines by simp

lemma decimal_digits_resolved_port:
  "decimal_digits (port url) \<Longrightarrow> decimal_digits (resolved_port url)"
  by (simp add: decimal_digits_def resolved_port_def)

lemma plain_needle_name: "plain_needle ''vite_hmr_csp''"
  by code_simp

lemma plain_needle_default_policy: "plain_needle default_policy"
  by code_simp

lemma fixed_lines_name: "\<forall>l\<in>set fixed_lines. \<not> sublist ''vite_hmr_csp'' l"
  by code_simp

lemma fixed_lines_default_policy: "\<forall>l\<in>set fixed_lines. \<not> sublist default_policy l"
  by code_simp
lemma policy_lines_default_policy:
  "\<forall>l\<in>set (policy_fragment (Some [])). \<not> sublist default_policy l"
  by code_simp

lemma key_statement_name:
  assumes "decimal_digits p"
  shows "\<not> sublist ''vite_hmr_csp'' (key_statement (''vite_hmr_'' @ p))"
proof -
  have eq: "key_statement (''vite_hmr_'' @ p)
      = (TAB # TAB # ''$key    = '') @ SQ # (''vite_hmr_'' @ p) @ SQ # '';''"
    by (simp add: key_statement_def)
  have "CHR ''p'' \<notin> set p"
  proof
    assume "CHR ''p'' \<in> set p"
    with assms have "CHR ''p'' \<in> set ''0123456789''"
      unfolding decimal_digits_def by blast
    then show False by simp
  qed
  then have mid: "sublist ''vite_hmr_csp'' (''vite_hmr_'' @ p)
      \<longleftrightarrow> sublist ''vite_hmr_csp'' ''vite_hmr_''"
    by (intro sublist_skip_right) simp_all
  have short: "\<not> sublist ''vite_hmr_csp'' ''vite_hmr_''"
    using sublist_length_le [of "''vite_hmr_csp''" "''vite_hmr_''"] by auto
  have a: "\<not> sublist ''vite_hmr_csp'' (TAB # TAB # ''$key    = '')"
    by (rule not_sublist_hd) simp_all
  have b: "\<not> sublist ''vite_hmr_csp'' '';''"
    by (rule not_sublist_hd) simp_all
  have sq: "SQ \<notin> set ''vite_hmr_csp''"
    by simp
  from sublist_between [OF sq sq, of "TAB # TAB # ''$key    = ''" "''vite_hmr_'' @ p" "'';''"]
    mid short a b
  show ?thesis
    unfolding eq by blast
qed

lemma hd_default_policy: "hd default_policy = CHR ''C''"
  by (simp add: default_policy_def)


lemma key_statement_default_policy:
  assumes "decimal_digits p"
  shows "\<not> sublist default_policy (key_statement (''vite_hmr_'' @ p))"
proof (rule not_sublist_hd)
  show "default_policy \<noteq> []"
    by (simp add: default_policy_def)
  have "CHR ''C'' \<notin> set p"
  proof
    assume "CHR ''C'' \<in> set p"
    with assms have "CHR ''C'' \<in> set ''0123456789''"
      unfolding decimal_digits_def by blast
    then show False by simp
  qed
  then show "hd default_policy \<notin> set (key_statement (''vite_hmr_'' @ p))"
    unfolding hd_default_policy by (simp add: key_statement_def)
qed

lemma fragments_needle:
  assumes "plain_needle n" and "\<forall>l\<in>set fixed_lines. \<not> sublist n l"
    and "\<not> sublist n (key_statement (''vite_hmr_'' @ resolved_port url))"
    and "policy_text options \<noteq> None \<Longrightarrow> \<forall>l\<in>set (policy_fragment (Some [])). \<not> sublist n l"
  shows "(\<exists>l\<in>set (fragments url orig options). sublist n l) \<longleftrightarrow>
     sublist n orig \<or> sublist n (hostname url) \<or> sublist n (resolved_port url)
     \<or> sublist n (ttl_literal options)
     \<or> (\<exists>t\<in>set (supplied_patterns options). sublist n t)
     \<or> (\<exists>e\<in>set (reload_events options). sublist n e)
     \<or> (\<exists>pol. policy_text options = Some pol \<and> sublist n pol)"
proof -
  from assms(2) have h: "\<forall>l\<in>set header_fragment. \<not> sublist n l"
    by (simp add: fixed_lines_def)
  have p: "(\<exists>l\<in>set (policy_fragment (policy_text options)). sublist n l)
      \<longleftrightarrow> (\<exists>pol. policy_text options = Some pol \<and> sublist n pol)"
  proof (cases "policy_text options")
    case None
    then show ?thesis by (simp add: policy_fragment_def)
  next
    case (Some pol)
    with assms(4) policy_needle [OF assms(1), of pol] show ?thesis by simp
  qed
  from h have h': "(\<exists>l\<in>set header_fragment. sublist n l) \<longleftrightarrow> False"
    by blast
  have split: "(\<exists>l\<in>set (fragments url orig options). sublist n l) \<longleftrightarrow>
      (\<exists>l\<in>set header_fragment. sublist n l)
      \<or> (\<exists>l\<in>set (detector_fragment (pattern_list options)). sublist n l)
      \<or> (\<exists>l\<in>set (probe_fragment (hostname url) (resolved_port url) (ttl_literal options)).
           sublist n l)
      \<or> (\<exists>l\<in>set (injector_fragment orig (reload_events options)). sublist n l)
      \<or> (\<exists>l\<in>set (policy_fragment (policy_text options)). sublist n l)"
    by (simp only: fragments_def set_append bex_Un)
  show ?thesis
    unfolding split h' p detector_needle [OF assms(1,2), of options]
      probe_needle [OF assms(1,2,3), of "hostname url" "ttl_literal options"]
      injector_needle [OF assms(1,2), of orig "reload_events options"]
    by (simp only: simp_thms disj_assoc disj_left_commute disj_commute)
qed

lemma output_needle:
  assumes "parseURL orig = Some url" and "plain_needle n"
  shows "\<exists>out. buildPhp parseURL orig options = Inr out
     \<and> (sublist n out \<longleftrightarrow> (\<exists>l\<in>set (fragments url orig options). sublist n l))"
proof -
  from assms(2) have "n \<noteq> []" and "LF \<notin> set n"
    by (rule plain_needleD)+
  then have "sublist n (join (fragments url orig options) [LF])
      \<longleftrightarrow> (\<exists>l\<in>set (fragments url orig options). sublist n l)"
    by (rule sublist_join_char)
  with assms(1) show ?thesis
    by (simp add: buildPhp_Some)
qed

lemma name_in_lines:
  assumes "decimal_digits (port url)" and "csp options = Some (CspBool False)"
  shows "(\<exists>l\<in>set (fragments url orig options). sublist ''vite_hmr_csp'' l)
     \<longleftrightarrow> (\<exists>t\<in>set (interpolated url orig options). sublist ''vite_hmr_csp'' t)"
proof -
  from assms(2) have none: "policy_text options = None"
    by (simp add: policy_text_def)
  have key: "\<not> sublist ''vite_hmr_csp'' (key_statement (''vite_hmr_'' @ resolved_port url))"
    by (rule key_statement_name [OF decimal_digits_resolved_port [OF assms(1)]])
  have "(\<exists>l\<in>set (fragments url orig options). sublist ''vite_hmr_csp'' l) \<longleftrightarrow>
     sublist ''vite_hmr_csp'' orig \<or> sublist ''vite_hmr_csp'' (hostname url)
     \<or> sublist ''vite_hmr_csp'' (resolved_port url)
     \<or> sublist ''vite_hmr_csp'' (ttl_literal options)
     \<or> (\<exists>t\<in>set (supplied_patterns options). sublist ''vite_hmr_csp'' t)
     \<or> (\<exists>e\<in>set (reload_events options). sublist ''vite_hmr_csp'' e)
     \<or> (\<exists>pol. policy_text options = Some pol \<and> sublist ''vite_hmr_csp'' pol)"
    using none by (intro fragments_needle [OF plain_needle_name fixed_lines_name key]) simp
  also have "\<dots> \<longleftrightarrow> (\<exists>t\<in>set (interpolated url orig options). sublist ''vite_hmr_csp'' t)"
    by (simp add: interpolated_def none assms(2) bex_Un)
  finally show ?thesis .
qed

lemma default_policy_in_lines:
  assumes "decimal_digits (port url)" and "csp options = Some (CspString s)"
  shows "(\<exists>l\<in>set (fragments url orig options). sublist default_policy l)
     \<longleftrightarrow> (\<exists>t\<in>set (interpolated url orig options). sublist default_policy t)"
proof -
  from assms(2) have some: "policy_text options = Some s"
    by (simp add: policy_text_def)
  have key: "\<not> sublist default_policy (key_statement (''vite_hmr_'' @ resolved_port url))"
    by (rule key_statement_default_policy [OF decimal_digits_resolved_port [OF assms(1)]])
  have "(\<exists>l\<in>set (fragments url orig options). sublist default_policy l) \<longleftrightarrow>
     sublist default_policy orig \<or> sublist default_policy (hostname url)
     \<or> sublist default_policy (resolved_port url)
     \<or> sublist default_policy (ttl_literal options)
     \<or> (\<exists>t\<in>set (supplied_patterns options). sublist default_policy t)
     \<or> (\<exists>e\<in>set (reload_events options). sublist default_policy e)
     \<or> (\<exists>pol. policy_text options = Some pol \<and> sublist default_policy pol)"
    by (intro fragments_needle [OF plain_needle_default_policy fixed_lines_default_policy key])
      (rule policy_lines_default_policy)
  also have "\<dots> \<longleftrightarrow> (\<exists>t\<in>set (interpolated url orig options). sublist default_policy t)"
    by (simp add: interpolated_def some assms(2) bex_Un) blast
  finally show ?thesis .
qed

lemma policy_in_output:
  assumes "parseURL orig = Some url" and "policy_text options = Some pol"
  shows "\<exists>out. buildPhp parseURL orig options = Inr out \<and> sublist pol out"
proof -
  have "header_line pol \<in> set (fragments url orig options)"
    by (simp add: fragments_def assms(2) policy_fragment_lines)
  from fragment_line_in_output [where parseURL = parseURL, OF assms(1) this]
  obtain out where out: "buildPhp parseURL orig options = Inr out"
    and sub: "sublist (header_line pol) out"
    by blast
  have "header_line pol = (TAB # TAB # ''header( '' @ [CHR 0x22]) @ pol @ ([CHR 0x22] @ '' );'')"
    by (simp add: header_line_def)
  with sub have "sublist pol out"
    using sublist_line_part [of "TAB # TAB # ''header( '' @ [CHR 0x22]" pol
        "[CHR 0x22] @ '' );''" out]
    by simp
  with out show ?thesis by blast
qed

lemma name_in_policy_lines:
  "sublist ''vite_hmr_csp'' policy_registration"
  "sublist ''vite_hmr_csp'' (function_header ''vite_hmr_csp'' ''void'')"
  "sublist ''vite_hmr_csp'' (existence_guard ''vite_hmr_csp'')"
  by code_simp+

lemma split_lines_not_Nil: "split_lines s \<noteq> []"
  by (induction s) (auto split: list.split)

lemma split_lines_append_LF: "split_lines (x @ LF # r) = split_lines x @ split_lines r"
proof (induction x)
  case Nil
  show ?case by simp
next
  case (Cons c cs)
  obtain l ls where "split_lines cs = l # ls"
    using split_lines_not_Nil [of cs] by (cases "split_lines cs") auto
  with Cons show ?case by simp
qed

lemma split_lines_join_concat:
  "ls \<noteq> [] \<Longrightarrow> split_lines (join ls [LF]) = concat (map split_lines ls)"
proof (induction ls "[LF]" rule: join.induct)
  case 1
  then show ?case by simp
next
  case (2 x)
  show ?case by simp
next
  case (3 x y ys)
  then show ?case by (simp add: split_lines_append_LF)
qed

lemma split_lines_output_concat:
  "parseURL orig = Some url \<Longrightarrow>
     \<exists>out. buildPhp parseURL orig options = Inr out
       \<and> split_lines out = concat (map split_lines (fragments url orig options))"
  by (simp add: buildPhp_Some split_lines_join_concat fragments_not_Nil)

lemma pattern_in_output:
  assumes "parseURL orig = Some url" and "t \<in> set (supplied_patterns options)"
  shows "\<exists>out. buildPhp parseURL orig options = Inr out \<and> sublist t out"
proof -
  have "foreach_line (pattern_list options) \<in> set (fragments url orig options)"
    by (simp add: fragments_def detector_fragment_lines)
  from fragment_line_in_output [where parseURL = parseURL, OF assms(1) this]
  obtain out where out: "buildPhp parseURL orig options = Inr out"
    and sub: "sublist (foreach_line (pattern_list options)) out"
    by blast
  from assms(2) have "quoted t \<in> set (map quoted ([''local'', ''test'', ''dev'']
      @ supplied_patterns options))"
    by simp
  then have "sublist (quoted t) (pattern_list options)"
    unfolding pattern_list_def by (rule sublist_join_member)
  moreover have "sublist t (quoted t)"
    using sublist_appendI [of t "[SQ]" "[SQ]"] by (simp add: quoted_def)
  moreover have "sublist (pattern_list options) (foreach_line (pattern_list options))"
    using sublist_appendI [of "pattern_list options" "TAB # TAB # ''foreach ( [ ''"
        "'' ] as $tld ) {''"]
    by (simp add: foreach_line_def)
  ultimately have "sublist t out"
    using sub sublist_order.order_trans by blast
  with out show ?thesis by blast
qed

section \<open>Claims\<close>

subsection \<open>C1: the policy\<close>

text \<open>
  Claim C1, as stated: for every origin and configuration, if \<^verbatim>\<open>csp\<close> is \<^verbatim>\<open>false\<close>
  the output contains neither the policy function \<^verbatim>\<open>vite_hmr_csp\<close> nor its
  registration anywhere; if \<^verbatim>\<open>csp\<close> is \<^verbatim>\<open>true\<close> or absent the output contains the
  fixed default policy string; and for every string value of \<^verbatim>\<open>csp\<close> that exact string
  appears in the output and the default policy string does not. This fails, because every
  caller-supplied string is copied into the output as it is: a policy string that extends
  the default policy contains the default policy, and with \<^verbatim>\<open>csp: false\<close> a supplied
  pattern that holds the registration of the policy function puts it into the output.
\<close>

theorem C1_policy_counterexample:
  \<open>(case buildPhp URL_of_examples ''http://localhost:5173''
       (opts\<lparr>csp := Some (CspString ''Content-Security-Policy: script-src * blob: \'unsafe-inline\' \'unsafe-eval\'; worker-src * blob:; connect-src * \'unsafe-inline\'; img-src *;'')\<rparr>) of
      Inl e \<Rightarrow> False
    | Inr out \<Rightarrow> sublist default_policy out)
   \<and> (case buildPhp URL_of_examples ''http://localhost:5173''
       (opts\<lparr>csp := Some (CspBool False),
              devPatterns := Some [''add_action( \'send_headers\', \'vite_hmr_csp\', 1 );'']\<rparr>) of
      Inl e \<Rightarrow> False
    | Inr out \<Rightarrow> sublist ''add_action( \'send_headers\', \'vite_hmr_csp\', 1 );'' out)\<close>
proof -
  let ?s = \<open>''Content-Security-Policy: script-src * blob: \'unsafe-inline\' \'unsafe-eval\'; worker-src * blob:; connect-src * \'unsafe-inline\'; img-src *;''\<close>
  let ?r = \<open>''add_action( \'send_headers\', \'vite_hmr_csp\', 1 );''\<close>
  have "policy_text (opts\<lparr>csp := Some (CspString ?s)\<rparr>) = Some ?s"
    by (simp add: policy_text_def)
  from policy_in_output [where parseURL = URL_of_examples, OF URL_of_examples_localhost this]
  obtain out1 where out1: "buildPhp URL_of_examples ''http://localhost:5173''
      (opts\<lparr>csp := Some (CspString ?s)\<rparr>) = Inr out1" and "sublist ?s out1"
    by blast
  moreover have "prefix default_policy ?s"
    by (simp add: default_policy_def)
  ultimately have one: "sublist default_policy out1"
    using prefix_imp_sublist sublist_order.order_trans by blast
  have "?r \<in> set (supplied_patterns
      (opts\<lparr>csp := Some (CspBool False), devPatterns := Some [?r]\<rparr>))"
    by (simp add: supplied_patterns_def)
  from pattern_in_output [where parseURL = URL_of_examples, OF URL_of_examples_localhost this]
  obtain out2 where out2: "buildPhp URL_of_examples ''http://localhost:5173''
      (opts\<lparr>csp := Some (CspBool False), devPatterns := Some [?r]\<rparr>) = Inr out2"
    and two: "sublist ?r out2"
    by blast
  from out1 one out2 two show ?thesis
    by simp
qed

text \<open>
  Claim C1, amended: for every origin that the \<^verbatim>\<open>URL\<close> constructor accepts (its port
  being a string of decimal digits) and every configuration: if \<^verbatim>\<open>csp\<close> is
  \<^verbatim>\<open>false\<close>, the name \<^verbatim>\<open>vite_hmr_csp\<close> occurs in the output exactly when it occurs in
  one of the caller-supplied strings, and when it does not occur the output contains
  neither the guard, nor the definition, nor the registration of the policy function; if
  \<^verbatim>\<open>csp\<close> is \<^verbatim>\<open>true\<close> or absent, the output contains the fixed default policy string;
  if \<^verbatim>\<open>csp\<close> is a string, that string occurs in the output, and the default policy
  string occurs in the output exactly when it occurs in one of the caller-supplied
  strings, the policy string among them.
\<close>

theorem C1_policy:
  assumes "parseURL orig = Some url" and "decimal_digits (port url)"
  shows "\<exists>out. buildPhp parseURL orig options = Inr out
     \<and> (csp options = Some (CspBool False) \<longrightarrow>
          (sublist ''vite_hmr_csp'' out
             \<longleftrightarrow> (\<exists>t\<in>set (interpolated url orig options). sublist ''vite_hmr_csp'' t))
          \<and> (\<not> sublist ''vite_hmr_csp'' out \<longrightarrow>
                \<not> sublist (existence_guard ''vite_hmr_csp'') out
                \<and> \<not> sublist (function_header ''vite_hmr_csp'' ''void'') out
                \<and> \<not> sublist policy_registration out))
     \<and> (csp options = None \<or> csp options = Some (CspBool True) \<longrightarrow>
          sublist default_policy out)
     \<and> (\<forall>s. csp options = Some (CspString s) \<longrightarrow>
            sublist s out
            \<and> (sublist default_policy out
                  \<longleftrightarrow> (\<exists>t\<in>set (interpolated url orig options). sublist default_policy t)))"
proof -
  from assms(1) obtain out where out: "buildPhp parseURL orig options = Inr out"
    by (auto simp: buildPhp_def)
  have a: "sublist ''vite_hmr_csp'' out
      \<longleftrightarrow> (\<exists>t\<in>set (interpolated url orig options). sublist ''vite_hmr_csp'' t)"
    if "csp options = Some (CspBool False)"
    using output_needle [where parseURL = parseURL and options = options,
        OF assms(1) plain_needle_name] name_in_lines [OF assms(2) that, of orig] out
    by simp
  have a': "\<not> sublist (existence_guard ''vite_hmr_csp'') out
      \<and> \<not> sublist (function_header ''vite_hmr_csp'' ''void'') out
      \<and> \<not> sublist policy_registration out"
    if "\<not> sublist ''vite_hmr_csp'' out"
    using that name_in_policy_lines sublist_order.order_trans by blast
  have b: "sublist default_policy out"
    if "csp options = None \<or> csp options = Some (CspBool True)"
  proof -
    from that have "policy_text options = Some default_policy"
      by (auto simp: policy_text_def)
    from policy_in_output [where parseURL = parseURL, OF assms(1) this] out
    show ?thesis by simp
  qed
  have c: "sublist s out
      \<and> (sublist default_policy out
            \<longleftrightarrow> (\<exists>t\<in>set (interpolated url orig options). sublist default_policy t))"
    if "csp options = Some (CspString s)" for s
  proof -
    from that have "policy_text options = Some s"
      by (simp add: policy_text_def)
    from policy_in_output [where parseURL = parseURL, OF assms(1) this] out
    have "sublist s out" by simp
    moreover have "sublist default_policy out
        \<longleftrightarrow> (\<exists>t\<in>set (interpolated url orig options). sublist default_policy t)"
      using output_needle [where parseURL = parseURL and options = options,
          OF assms(1) plain_needle_default_policy]
        default_policy_in_lines [OF assms(2) that, of orig] out
      by simp
    ultimately show ?thesis by simp
  qed
  from out a a' b c show ?thesis by blast
qed

theorem C1_policy_witness:
  \<open>URL_of_examples ''http://localhost:5173''
     = Some \<lparr>protocol = ''http:'', hostname = ''localhost'', port = ''5173''\<rparr>
   \<and> decimal_digits ''5173''
   \<and> (\<exists>out. buildPhp URL_of_examples ''http://localhost:5173''
               (opts\<lparr>csp := Some (CspBool False)\<rparr>) = Inr out
        \<and> \<not> sublist ''vite_hmr_csp'' out)
   \<and> (\<exists>out. buildPhp URL_of_examples ''http://localhost:5173''
               (opts\<lparr>csp := Some (CspString ''Content-Security-Policy: script-src \'self\';'')\<rparr>)
             = Inr out
        \<and> sublist ''Content-Security-Policy: script-src \'self\';'' out
        \<and> \<not> sublist default_policy out)\<close>
proof -
  let ?u = "\<lparr>protocol = ''http:'', hostname = ''localhost'', port = ''5173''\<rparr>"
  let ?s = \<open>''Content-Security-Policy: script-src \'self\';''\<close>
  have d: "decimal_digits (port ?u)"
    by (simp add: decimal_digits_def)
  have n1: "\<not> (\<exists>t\<in>set (interpolated ?u ''http://localhost:5173''
        (opts\<lparr>csp := Some (CspBool False)\<rparr>)). sublist ''vite_hmr_csp'' t)"
    by code_simp
  have n2: "\<not> (\<exists>t\<in>set (interpolated ?u ''http://localhost:5173''
        (opts\<lparr>csp := Some (CspString ?s)\<rparr>)). sublist default_policy t)"
    by code_simp
  from C1_policy [where parseURL = URL_of_examples
      and options = "opts\<lparr>csp := Some (CspBool False)\<rparr>", OF URL_of_examples_localhost d] n1
  have w1: "\<exists>out. buildPhp URL_of_examples ''http://localhost:5173''
               (opts\<lparr>csp := Some (CspBool False)\<rparr>) = Inr out
        \<and> \<not> sublist ''vite_hmr_csp'' out"
    by auto
  from C1_policy [where parseURL = URL_of_examples
      and options = "opts\<lparr>csp := Some (CspString ?s)\<rparr>", OF URL_of_examples_localhost d] n2
  have w2: "\<exists>out. buildPhp URL_of_examples ''http://localhost:5173''
               (opts\<lparr>csp := Some (CspString ?s)\<rparr>) = Inr out
        \<and> sublist ?s out \<and> \<not> sublist default_policy out"
    by auto
  from d w1 w2 show ?thesis
    by (simp add: URL_of_examples_localhost)
qed

subsection \<open>C2: the hot-context subscription block\<close>

text \<open>
  Claim C2, as stated: for every configuration, if \<^verbatim>\<open>cssReloadEvents\<close> is empty or
  absent the output contains no hot-context subscription block (no
  \<^verbatim>\<open>createHotContext\<close> statement and no listener registration), and otherwise it
  contains exactly one listener registration for each event name, in the order of the
  input. This fails, because every caller-supplied string is copied into the output as it
  is: with \<^verbatim>\<open>cssReloadEvents\<close> absent and a supplied pattern that holds a line break
  followed by the statement, the statement that creates the hot context is a line of the
  output.
\<close>

theorem C2_subscription_block_counterexample:
  \<open>case buildPhp URL_of_examples ''http://localhost:5173''
       (opts\<lparr>devPatterns := Some
          [''x'' @ [LF, TAB, TAB] @ ''echo \'const hot = createHotContext("/wp-hmr");\' . "''
             @ [BSL] @ ''n";'' @ [LF] @ ''y'']\<rparr>) of
     Inl e \<Rightarrow> False
   | Inr out \<Rightarrow>
       TAB # TAB # ''echo \'const hot = createHotContext("/wp-hmr");\' . "'' @ [BSL] @ ''n";''
         \<in> set (split_lines out)\<close>
proof -
  let ?o = \<open>opts\<lparr>devPatterns := Some
          [''x'' @ [LF, TAB, TAB] @ ''echo \'const hot = createHotContext("/wp-hmr");\' . "''
             @ [BSL] @ ''n";'' @ [LF] @ ''y'']\<rparr>\<close>
  let ?u = "\<lparr>protocol = ''http:'', hostname = ''localhost'', port = ''5173''\<rparr>"
  from split_lines_output_concat [where parseURL = URL_of_examples and options = ?o,
      OF URL_of_examples_localhost]
  obtain out where out: "buildPhp URL_of_examples ''http://localhost:5173'' ?o = Inr out"
    and lines: "split_lines out = concat (map split_lines (fragments ?u ''http://localhost:5173'' ?o))"
    by blast
  have "foreach_line (pattern_list ?o) \<in> set (fragments ?u ''http://localhost:5173'' ?o)"
    by (simp add: fragments_def detector_fragment_lines)
  moreover have \<open>TAB # TAB # ''echo \'const hot = createHotContext("/wp-hmr");\' . "'' @ [BSL]
      @ ''n";'' \<in> set (split_lines (foreach_line (pattern_list ?o)))\<close>
    by (simp add: foreach_line_def pattern_list_def supplied_patterns_def opts_def quoted_def)
  ultimately have \<open>TAB # TAB # ''echo \'const hot = createHotContext("/wp-hmr");\' . "'' @ [BSL]
      @ ''n";'' \<in> set (split_lines out)\<close>
    unfolding lines by auto
  with out show ?thesis by simp
qed

text \<open>
  Claim C2, amended: for every origin that the \<^verbatim>\<open>URL\<close> constructor accepts and every
  configuration in which no caller-supplied string contains a line break, the lines of
  the output are the lines that \<^verbatim>\<open>buildPhp\<close> generates, and: if
  \<^verbatim>\<open>cssReloadEvents\<close> is empty or absent, no line of the output is a listener
  registration, the import of \<^verbatim>\<open>createHotContext\<close> or the statement that calls it;
  if \<^verbatim>\<open>cssReloadEvents\<close> is not empty, the listener registrations among the lines of
  the output are exactly one for each event name, each holding that event name between
  double quotes, in the order of the input, and the statement that creates the hot
  context is a line of the output.
\<close>

theorem C2_subscription_block:
  assumes "parseURL orig = Some url"
    and "\<forall>s\<in>set (interpolated url orig options). LF \<notin> set s"
  shows "\<exists>out. buildPhp parseURL orig options = Inr out
     \<and> split_lines out = buildPhp_lines url orig options
     \<and> (cssReloadEvents options = None \<or> cssReloadEvents options = Some [] \<longrightarrow>
          (\<forall>l\<in>set (split_lines out). \<not> hot_context_line l))
     \<and> (\<forall>evs. cssReloadEvents options = Some evs \<and> evs \<noteq> [] \<longrightarrow>
          filter listener_line (split_lines out) = map listener_registration evs
          \<and> hot_context_statement \<in> set (split_lines out))"
proof -
  have "cssReloadEvents options = None \<or> cssReloadEvents options = Some [] \<Longrightarrow>
      \<forall>l\<in>set (fragments url orig options). \<not> hot_context_line l"
    by (intro no_hot_context_line) (auto simp: reload_events_def)
  moreover have "cssReloadEvents options = Some evs \<Longrightarrow> evs \<noteq> [] \<Longrightarrow>
      filter listener_line (fragments url orig options) = map listener_registration evs
      \<and> hot_context_statement \<in> set (fragments url orig options)" for evs
    using filter_fragments [of url orig options]
      hot_context_statement_present [of options url orig]
    by (simp add: reload_events_def)
  ultimately show ?thesis
    using assms(1) split_lines_output [OF assms(2)]
    by (simp add: buildPhp_Some buildPhp_lines_fragments)
qed

theorem C2_subscription_block_witness:
  \<open>URL_of_examples ''http://localhost:5173''
     = Some \<lparr>protocol = ''http:'', hostname = ''localhost'', port = ''5173''\<rparr>
   \<and> list_all (\<lambda>s. LF \<notin> set s)
        (interpolated \<lparr>protocol = ''http:'', hostname = ''localhost'', port = ''5173''\<rparr>
           ''http://localhost:5173'' (opts\<lparr>cssReloadEvents := Some [''evt1'', ''evt2'']\<rparr>))
   \<and> (\<exists>out. buildPhp URL_of_examples ''http://localhost:5173''
               (opts\<lparr>cssReloadEvents := Some [''evt1'', ''evt2'']\<rparr>) = Inr out
        \<and> filter listener_line (split_lines out)
            = [ TAB # TAB # ''echo \'hot.on("evt1", () => {\' . "'' @ [BSL] @ ''n";'',
                TAB # TAB # ''echo \'hot.on("evt2", () => {\' . "'' @ [BSL] @ ''n";'' ])\<close>
proof -
  have free: "\<forall>s\<in>set (interpolated \<lparr>protocol = ''http:'', hostname = ''localhost'', port = ''5173''\<rparr>
                 ''http://localhost:5173''
                 (opts\<lparr>cssReloadEvents := Some [''evt1'', ''evt2'']\<rparr>)). LF \<notin> set s"
    by (simp add: interpolated_def opts_def resolved_port_def ttl_literal_def
        supplied_patterns_def reload_events_def)
  from C2_subscription_block [where parseURL = URL_of_examples
      and options = "opts\<lparr>cssReloadEvents := Some [''evt1'', ''evt2'']\<rparr>",
      OF URL_of_examples_localhost free]
  obtain out where "buildPhp URL_of_examples ''http://localhost:5173''
               (opts\<lparr>cssReloadEvents := Some [''evt1'', ''evt2'']\<rparr>) = Inr out"
    and "\<forall>evs. cssReloadEvents (opts\<lparr>cssReloadEvents := Some [''evt1'', ''evt2'']\<rparr>) = Some evs
           \<and> evs \<noteq> [] \<longrightarrow>
          filter listener_line (split_lines out) = map listener_registration evs
          \<and> hot_context_statement \<in> set (split_lines out)"
    by blast
  then have "\<exists>out. buildPhp URL_of_examples ''http://localhost:5173''
               (opts\<lparr>cssReloadEvents := Some [''evt1'', ''evt2'']\<rparr>) = Inr out
        \<and> filter listener_line (split_lines out)
            = map listener_registration [''evt1'', ''evt2'']"
    by simp
  with free show ?thesis
    by (simp add: URL_of_examples_localhost listener_registration_def list_all_iff)
qed

subsection \<open>C3: the pattern list of the detector\<close>

text \<open>
  Claim C3. For every \<^verbatim>\<open>devPatterns\<close> input, absent included, the pattern list
  emitted into the generated detector is the fixed base list \<^verbatim>\<open>'local', 'test', 'dev'\<close>
  followed by the supplied patterns in the supplied order, each pattern between single
  quotes and the items separated by a comma and a space; nothing is removed, so a
  supplied pattern that repeats a base pattern is emitted again.
\<close>

theorem C3_pattern_list:
  assumes "parseURL orig = Some url"
  shows "\<exists>out. buildPhp parseURL orig options = Inr out
           \<and> sublist (''foreach ( [ ''
                  @ join (map (\<lambda>t. [SQ] @ t @ [SQ])
                       ([''local'', ''test'', ''dev'']
                        @ (case devPatterns options of None \<Rightarrow> [] | Some ps \<Rightarrow> ps))) '', ''
                  @ '' ] as $tld ) {'') out"
proof -
  let ?tl = "join (map (\<lambda>t. [SQ] @ t @ [SQ])
                       ([''local'', ''test'', ''dev'']
                        @ (case devPatterns options of None \<Rightarrow> [] | Some ps \<Rightarrow> ps))) '', ''"
  have tl: "pattern_list options = ?tl"
    unfolding pattern_list_def supplied_patterns_def quoted_def by simp
  have "TAB # TAB # ''foreach ( [ '' @ ?tl @ '' ] as $tld ) {'' \<in> set (fragments url orig options)"
    by (simp add: fragments_def detector_fragment_def tl)
  from fragment_line_in_output [where parseURL = parseURL, OF assms this]
  obtain out where out: "buildPhp parseURL orig options = Inr out"
    and sub: "sublist (TAB # TAB # ''foreach ( [ '' @ ?tl @ '' ] as $tld ) {'') out"
    by blast
  have "sublist (''foreach ( [ '' @ ?tl @ '' ] as $tld ) {'') out"
    using sublist_line_part [of "[TAB, TAB]" _ "[]" out] sub by simp
  with out show ?thesis by blast
qed

text \<open>
  At \<^verbatim>\<open>devPatterns: ['ddev', 'dev']\<close> the list has five items, \<^verbatim>\<open>'dev'\<close> twice.
\<close>

theorem C3_pattern_list_witness:
  \<open>URL_of_examples ''http://localhost:5173''
     = Some \<lparr>protocol = ''http:'', hostname = ''localhost'', port = ''5173''\<rparr>
   \<and> (\<exists>out. buildPhp URL_of_examples ''http://localhost:5173''
                (opts\<lparr>devPatterns := Some [''ddev'', ''dev'']\<rparr>) = Inr out
          \<and> sublist ''foreach ( [ \'local\', \'test\', \'dev\', \'ddev\', \'dev\' ] as $tld ) {'' out)\<close>
  using C3_pattern_list [where parseURL = URL_of_examples and orig = "''http://localhost:5173''"
      and options = "opts\<lparr>devPatterns := Some [''ddev'', ''dev'']\<rparr>",
      OF URL_of_examples_localhost]
  by (simp add: URL_of_examples_localhost opts_def)

subsection \<open>C4: host and port of the probe\<close>

text \<open>
  Claim C4, as stated: for every syntactically valid absolute origin URL, the host and
  port literals embedded in the probe equal the origin's hostname and port exactly, and
  when the origin has no explicit port the embedded port is 443 if the scheme is https
  and 80 otherwise. This fails for an origin whose explicit port is the default port of a
  scheme other than http and https: the \<^verbatim>\<open>URL\<close> constructor drops that port, and
  \<^verbatim>\<open>buildPhp\<close>, which tells only \<^verbatim>\<open>https:\<close> from every other protocol, falls
  back to 80. For the origin \<^verbatim>\<open>wss://localhost:443\<close> the probe connects to port 80:
  line 22 (counting from 0) of the output is the \<^verbatim>\<open>fsockopen\<close> call with 80.
\<close>

theorem C4_probe_port_counterexample:
  \<open>case buildPhp URL_of_examples ''wss://localhost:443'' opts of
     Inl e \<Rightarrow> False
   | Inr out \<Rightarrow>
       sublist ''@fsockopen( \'localhost\', 80, $errno, $errstr, 1 );'' out
       \<and> split_lines out ! 22
           = TAB # TAB # ''$conn   = @fsockopen( \'localhost\', 80, $errno, $errstr, 1 );''\<close>
proof -
  let ?u = "\<lparr>protocol = ''wss:'', hostname = ''localhost'', port = ''''\<rparr>"
  have free: "\<forall>s\<in>set (interpolated ?u ''wss://localhost:443'' opts). LF \<notin> set s"
    by (simp add: interpolated_def opts_def resolved_port_def ttl_literal_def
        supplied_patterns_def reload_events_def)
  have out: "buildPhp URL_of_examples ''wss://localhost:443'' opts
      = Inr (join (fragments ?u ''wss://localhost:443'' opts) [LF])"
    by (rule buildPhp_Some [where parseURL = URL_of_examples, OF URL_of_examples_wss])
  have \<open>fragments ?u ''wss://localhost:443'' opts ! 22
      = TAB # TAB # ''$conn   = @fsockopen( \'localhost\', 80, $errno, $errstr, 1 );''\<close>
    by (simp add: fragments_def header_fragment_def detector_fragment_def probe_fragment_def
        resolved_port_def)
  then have line: \<open>split_lines (join (fragments ?u ''wss://localhost:443'' opts) [LF]) ! 22
      = TAB # TAB # ''$conn   = @fsockopen( \'localhost\', 80, $errno, $errstr, 1 );''\<close>
    by (simp only: split_lines_output [OF free])
  from probe_line_in_output [where parseURL = URL_of_examples and options = opts,
      OF URL_of_examples_wss]
  have \<open>sublist ''@fsockopen( \'localhost\', 80, $errno, $errstr, 1 );''
      (join (fragments ?u ''wss://localhost:443'' opts) [LF])\<close>
    by (simp add: out resolved_port_def)
  with line show ?thesis
    by (simp only: out sum.case)
qed

text \<open>
  Claim C4, amended: for every origin that the \<^verbatim>\<open>URL\<close> constructor accepts, the host
  and port literals of the \<^verbatim>\<open>fsockopen\<close> call in the probe are the \<^verbatim>\<open>hostname\<close>
  and the \<^verbatim>\<open>port\<close> of the parsed origin; when the \<^verbatim>\<open>port\<close> of the parsed origin
  is the empty string (the origin has no explicit port, or its explicit port is the
  default port of its scheme, which the constructor drops), the port literal is 443 if
  the protocol is \<^verbatim>\<open>https:\<close> and 80 otherwise.
\<close>

theorem C4_probe_host_port:
  assumes "parseURL orig = Some url"
  shows "\<exists>out. buildPhp parseURL orig options = Inr out
     \<and> (port url \<noteq> [] \<longrightarrow>
          sublist (''@fsockopen( '' @ [SQ] @ hostname url @ [SQ] @ '', '' @ port url
                   @ '', $errno, $errstr, 1 );'') out)
     \<and> (port url = [] \<and> protocol url = ''https:'' \<longrightarrow>
          sublist (''@fsockopen( '' @ [SQ] @ hostname url @ [SQ]
                   @ '', 443, $errno, $errstr, 1 );'') out)
     \<and> (port url = [] \<and> protocol url \<noteq> ''https:'' \<longrightarrow>
          sublist (''@fsockopen( '' @ [SQ] @ hostname url @ [SQ]
                   @ '', 80, $errno, $errstr, 1 );'') out)"
  using probe_line_in_output [where parseURL = parseURL and options = options, OF assms]
  by (auto simp: resolved_port_def)

theorem C4_probe_host_port_witness:
  \<open>URL_of_examples ''https://example.test''
     = Some \<lparr>protocol = ''https:'', hostname = ''example.test'', port = ''''\<rparr>
   \<and> (\<exists>out. buildPhp URL_of_examples ''https://example.test'' opts = Inr out
          \<and> sublist ''@fsockopen( \'example.test\', 443, $errno, $errstr, 1 );'' out)\<close>
  using C4_probe_host_port [where parseURL = URL_of_examples and orig = "''https://example.test''"
      and options = opts, OF URL_of_examples_noport]
  by (simp add: URL_of_examples_noport)

subsection \<open>C5: existence guards\<close>

text \<open>
  Claim C5, as stated: for every origin and configuration, in particular when
  \<^verbatim>\<open>csp\<close> is \<^verbatim>\<open>false\<close>, the output wraps each of the four functions
  \<^verbatim>\<open>vite_hmr_is_dev\<close>, \<^verbatim>\<open>vite_hmr_is_running\<close>, \<^verbatim>\<open>vite_hmr_inject\<close> and
  \<^verbatim>\<open>vite_hmr_csp\<close> in a \<^verbatim>\<open>function_exists\<close> guard. This fails: with
  \<^verbatim>\<open>csp: false\<close> the function \<^verbatim>\<open>vite_hmr_csp\<close> is not generated, and the output
  holds no guard for it.
\<close>

theorem C5_guard_counterexample:
  \<open>case buildPhp URL_of_examples ''http://localhost:5173'' (opts\<lparr>csp := Some (CspBool False)\<rparr>) of
     Inl e \<Rightarrow> False
   | Inr out \<Rightarrow> \<not> sublist ''function_exists( \'vite_hmr_csp\' )'' out\<close>
  by (simp add: buildPhp_Some [where parseURL = URL_of_examples, OF URL_of_examples_localhost]
      fragments_def opts_def policy_text_def policy_fragment_def header_fragment_def
      detector_fragment_def probe_fragment_def injector_fragment_def subscription_block_def
      injector_registration_def pattern_list_def supplied_patterns_def quoted_def
      resolved_port_def ttl_literal_def reload_events_def sublist_Cons_right)

text \<open>
  Claim C5, amended: for every origin that the \<^verbatim>\<open>URL\<close> constructor accepts and every
  configuration, each function that is generated is defined directly under its
  \<^verbatim>\<open>function_exists\<close> guard: the three functions \<^verbatim>\<open>vite_hmr_is_dev\<close>,
  \<^verbatim>\<open>vite_hmr_is_running\<close> and \<^verbatim>\<open>vite_hmr_inject\<close> always, and
  \<^verbatim>\<open>vite_hmr_csp\<close> whenever \<^verbatim>\<open>csp\<close> is not \<^verbatim>\<open>false\<close>. When \<^verbatim>\<open>csp\<close> is
  \<^verbatim>\<open>false\<close>, \<^verbatim>\<open>buildPhp\<close> generates neither that function nor a guard for it.
\<close>

theorem C5_guards:
  assumes "parseURL orig = Some url"
  shows "\<exists>out. buildPhp parseURL orig options = Inr out
     \<and> sublist (existence_guard ''vite_hmr_is_dev'' @ [LF]
                @ function_header ''vite_hmr_is_dev'' ''bool'') out
     \<and> sublist (existence_guard ''vite_hmr_is_running'' @ [LF]
                @ function_header ''vite_hmr_is_running'' ''bool'') out
     \<and> sublist (existence_guard ''vite_hmr_inject'' @ [LF]
                @ function_header ''vite_hmr_inject'' ''void'') out
     \<and> (csp options \<noteq> Some (CspBool False) \<longrightarrow>
          sublist (existence_guard ''vite_hmr_csp'' @ [LF]
                   @ function_header ''vite_hmr_csp'' ''void'') out)
     \<and> (csp options = Some (CspBool False) \<longrightarrow>
          existence_guard ''vite_hmr_csp'' \<notin> set (buildPhp_lines url orig options)
          \<and> function_header ''vite_hmr_csp'' ''void'' \<notin> set (buildPhp_lines url orig options))"
  using assms
    guarded_in_output [OF detector_guarded, of url orig options]
    guarded_in_output [OF probe_guarded, of url orig options]
    guarded_in_output [OF injector_guarded, of url orig options]
    guarded_in_output [OF policy_guarded, of options url orig]
    policy_lines_absent [of options url orig]
  by (simp add: buildPhp_Some buildPhp_lines_fragments)

theorem C5_guards_witness:
  \<open>URL_of_examples ''http://localhost:5173''
     = Some \<lparr>protocol = ''http:'', hostname = ''localhost'', port = ''5173''\<rparr>
   \<and> (\<exists>out. buildPhp URL_of_examples ''http://localhost:5173'' opts = Inr out
        \<and> sublist (''if ( ! function_exists( \'vite_hmr_is_dev\' ) ) {'' @ [LF, TAB]
                   @ ''function vite_hmr_is_dev(): bool {'') out
        \<and> sublist (''if ( ! function_exists( \'vite_hmr_is_running\' ) ) {'' @ [LF, TAB]
                   @ ''function vite_hmr_is_running(): bool {'') out
        \<and> sublist (''if ( ! function_exists( \'vite_hmr_inject\' ) ) {'' @ [LF, TAB]
                   @ ''function vite_hmr_inject(): void {'') out
        \<and> sublist (''if ( ! function_exists( \'vite_hmr_csp\' ) ) {'' @ [LF, TAB]
                   @ ''function vite_hmr_csp(): void {'') out)\<close>
  using C5_guards [where parseURL = URL_of_examples and orig = "''http://localhost:5173''"
      and options = opts, OF URL_of_examples_localhost]
  by (simp add: URL_of_examples_localhost opts_def existence_guard_def function_header_def)

subsection \<open>C6: the order of the fragments\<close>

text \<open>
  Claim C6. For every origin that the \<^verbatim>\<open>URL\<close> constructor accepts and every
  configuration, the output is the join, with a line feed as separator, of the lines of
  its fragments in a fixed order: the header comment, the dev-detector function, the
  reachability-probe function, the injector function with its registration and then the
  policy function with its registration, which is present unless \<^verbatim>\<open>csp\<close> is
  \<^verbatim>\<open>false\<close>.
\<close>

theorem C6_fragment_order:
  assumes "parseURL orig = Some url"
  shows "buildPhp parseURL orig options =
           Inr (join (header_fragment
                      @ detector_fragment (pattern_list options)
                      @ probe_fragment (hostname url) (resolved_port url) (ttl_literal options)
                      @ injector_fragment orig (reload_events options)
                      @ policy_fragment (policy_text options)) [LF])
         \<and> (policy_fragment (policy_text options) = [] \<longleftrightarrow> csp options = Some (CspBool False))"
proof -
  have "policy_fragment (policy_text options) = [] \<longleftrightarrow> csp options = Some (CspBool False)"
    by (simp add: policy_fragment_def policy_text_def split: option.split csp_value.split)
  with assms show ?thesis
    by (simp add: buildPhp_Some fragments_def)
qed

theorem C6_fragment_order_witness:
  \<open>URL_of_examples ''http://localhost:5173''
     = Some \<lparr>protocol = ''http:'', hostname = ''localhost'', port = ''5173''\<rparr>
   \<and> buildPhp URL_of_examples ''http://localhost:5173'' (opts\<lparr>csp := Some (CspBool False)\<rparr>) =
         Inr (join (header_fragment
                    @ detector_fragment ([SQ] @ ''local\', \'test\', \'dev'' @ [SQ])
                    @ probe_fragment ''localhost'' ''5173'' ''5''
                    @ injector_fragment ''http://localhost:5173'' []) [LF])\<close>
  using C6_fragment_order [where parseURL = URL_of_examples and orig = "''http://localhost:5173''"
      and options = "opts\<lparr>csp := Some (CspBool False)\<rparr>", OF URL_of_examples_localhost]
  by (simp add: URL_of_examples_localhost opts_def pattern_list_def supplied_patterns_def
      quoted_def resolved_port_def ttl_literal_def reload_events_def policy_text_def
      policy_fragment_def)

subsection \<open>C7: buildPhp returns\<close>

text \<open>
  Claim C7. For every origin string that the \<^verbatim>\<open>URL\<close> constructor accepts (a
  syntactically valid absolute URL) and every well-typed configuration object,
  \<^verbatim>\<open>buildPhp\<close> returns a string: it does not throw.
\<close>

theorem C7_buildPhp_returns:
  assumes "parseURL orig = Some url"
  shows "\<exists>out. buildPhp parseURL orig options = Inr out"
  using assms by (simp add: buildPhp_def)

theorem C7_buildPhp_returns_witness:
  "URL_of_examples ''http://localhost:5173''
     = Some \<lparr>protocol = ''http:'', hostname = ''localhost'', port = ''5173''\<rparr>
   \<and> (\<exists>out. buildPhp URL_of_examples ''http://localhost:5173'' opts = Inr out)"
  using C7_buildPhp_returns [where parseURL = URL_of_examples and options = opts,
      OF URL_of_examples_localhost]
  by (simp add: URL_of_examples_localhost)

subsection \<open>C8: the cache key\<close>

text \<open>
  Claim C8. The cache key emitted into the probe is the fixed prefix \<^verbatim>\<open>vite_hmr_\<close>
  followed by the resolved port: the statement that binds it is line 19 (counting from 0)
  of the generated lines and a part of the output. Hence for two origins whose resolved
  ports differ, whatever the configurations, the emitted keys and key statements differ.
\<close>

theorem C8_cache_key:
  assumes "parseURL origA = Some urlA" and "parseURL origB = Some urlB"
    and "resolved_port urlA \<noteq> resolved_port urlB"
  shows "\<exists>out1 out2.
           buildPhp parseURL origA optionsA = Inr out1
         \<and> buildPhp parseURL origB optionsB = Inr out2
         \<and> buildPhp_lines urlA origA optionsA ! 19
             = TAB # TAB # ''$key    = '' @ [SQ] @ ''vite_hmr_'' @ resolved_port urlA @ [SQ] @ '';''
         \<and> buildPhp_lines urlB origB optionsB ! 19
             = TAB # TAB # ''$key    = '' @ [SQ] @ ''vite_hmr_'' @ resolved_port urlB @ [SQ] @ '';''
         \<and> sublist (buildPhp_lines urlA origA optionsA ! 19) out1
         \<and> sublist (buildPhp_lines urlB origB optionsB ! 19) out2
         \<and> cache_key urlA \<noteq> cache_key urlB
         \<and> buildPhp_lines urlA origA optionsA ! 19 \<noteq> buildPhp_lines urlB origB optionsB ! 19"
proof -
  from key_line_in_output [where parseURL = parseURL and options = optionsA, OF assms(1)]
  obtain out1 where o1: "buildPhp parseURL origA optionsA = Inr out1"
    "sublist (key_statement (cache_key urlA)) out1" by blast
  from key_line_in_output [where parseURL = parseURL and options = optionsB, OF assms(2)]
  obtain out2 where o2: "buildPhp parseURL origB optionsB = Inr out2"
    "sublist (key_statement (cache_key urlB)) out2" by blast
  from assms(3) have "cache_key urlA \<noteq> cache_key urlB"
    by (simp add: cache_key_def)
  with o1 o2 show ?thesis
    by (simp add: key_line_index) (simp add: key_statement_def cache_key_def)
qed

theorem C8_cache_key_witness:
  \<open>URL_of_examples ''http://localhost:5173''
     = Some \<lparr>protocol = ''http:'', hostname = ''localhost'', port = ''5173''\<rparr>
   \<and> URL_of_examples ''https://example.test''
     = Some \<lparr>protocol = ''https:'', hostname = ''example.test'', port = ''''\<rparr>
   \<and> ''5173'' \<noteq> ''443''
   \<and> (\<exists>out1 out2.
         buildPhp URL_of_examples ''http://localhost:5173'' opts = Inr out1
       \<and> buildPhp URL_of_examples ''https://example.test'' opts = Inr out2
       \<and> sublist ''$key    = \'vite_hmr_5173\';'' out1
       \<and> sublist ''$key    = \'vite_hmr_443\';'' out2)\<close>
proof -
  have ports: "resolved_port \<lparr>protocol = ''http:'', hostname = ''localhost'', port = ''5173''\<rparr>
      \<noteq> resolved_port \<lparr>protocol = ''https:'', hostname = ''example.test'', port = ''''\<rparr>"
    by (simp add: resolved_port_def)
  from C8_cache_key [where parseURL = URL_of_examples and optionsA = opts and optionsB = opts,
      OF URL_of_examples_localhost URL_of_examples_noport ports]
  obtain out1 out2 where
    o: "buildPhp URL_of_examples ''http://localhost:5173'' opts = Inr out1"
       "buildPhp URL_of_examples ''https://example.test'' opts = Inr out2"
    and k1: "sublist (TAB # TAB # ''$key    = '' @ [SQ] @ ''vite_hmr_''
               @ resolved_port \<lparr>protocol = ''http:'', hostname = ''localhost'', port = ''5173''\<rparr>
               @ [SQ] @ '';'') out1"
    and k2: "sublist (TAB # TAB # ''$key    = '' @ [SQ] @ ''vite_hmr_''
               @ resolved_port \<lparr>protocol = ''https:'', hostname = ''example.test'', port = ''''\<rparr>
               @ [SQ] @ '';'') out2"
    by auto
  have \<open>sublist ''$key    = \'vite_hmr_5173\';'' out1\<close>
    using sublist_line_part [of "[TAB, TAB]" _ "[]" out1] k1 by (simp add: resolved_port_def)
  moreover have \<open>sublist ''$key    = \'vite_hmr_443\';'' out2\<close>
    using sublist_line_part [of "[TAB, TAB]" _ "[]" out2] k2 by (simp add: resolved_port_def)
  ultimately show ?thesis
    using o by (simp add: URL_of_examples_localhost URL_of_examples_noport)
qed

subsection \<open>C9: the TTL of the cache entry\<close>

text \<open>
  Claim C9, as stated: for every configuration, an integer \<^verbatim>\<open>cacheTtl\<close> appears
  unchanged as the TTL literal of the emitted \<^verbatim>\<open>set_transient\<close> statement, and when
  \<^verbatim>\<open>cacheTtl\<close> is omitted the literal is 5. This fails for an integer that a double
  holds but does not print digit by digit: \<^verbatim>\<open>cacheTtl\<close> is interpolated as a number,
  and the number \<open>2^55 = 36028797018963968\<close> is printed as \<^verbatim>\<open>36028797018963970\<close>, so
  the emitted literal is another integer.
\<close>

theorem C9_cache_ttl_counterexample:
  \<open>case buildPhp URL_of_examples ''http://localhost:5173''
       (opts\<lparr>cacheTtl := Some (Large 36028797018963968 ''36028797018963970'')\<rparr>) of
     Inl e \<Rightarrow> False
   | Inr out \<Rightarrow>
       sublist ''set_transient( $key, (int) $result, 36028797018963970 );'' out
       \<and> literal_value ''36028797018963970'' \<noteq> 36028797018963968\<close>
proof -
  let ?o = "opts\<lparr>cacheTtl := Some (Large 36028797018963968 ''36028797018963970'')\<rparr>"
  from ttl_line_in_output [where parseURL = URL_of_examples and options = ?o,
      OF URL_of_examples_localhost]
  obtain out where out: "buildPhp URL_of_examples ''http://localhost:5173'' ?o = Inr out"
    and "sublist (''set_transient( $key, (int) $result, '' @ ttl_literal ?o @ '' );'') out"
    by blast
  then have "sublist ''set_transient( $key, (int) $result, 36028797018963970 );'' out"
    by (simp add: ttl_literal_def)
  moreover have "literal_value ''36028797018963970'' \<noteq> 36028797018963968"
    by (simp add: literal_value_def digits_value_def)
  ultimately show ?thesis
    using out by simp
qed

text \<open>
  Claim C9, amended: for every origin that the \<^verbatim>\<open>URL\<close> constructor accepts and every
  configuration, an integer \<^verbatim>\<open>cacheTtl\<close> of the range that is printed digit by digit
  (\<open>- 2^53 \<le> i < 2^53\<close>, the values of \<open>sint\<close> on 54-bit words) appears unchanged as the
  TTL literal of the emitted \<^verbatim>\<open>set_transient\<close> statement: the literal is the decimal
  numeral of the integer, and reading the numeral gives the integer back. When
  \<^verbatim>\<open>cacheTtl\<close> is omitted the literal is 5.
\<close>

theorem C9_cache_ttl:
  assumes "parseURL orig = Some url"
  shows "\<exists>out. buildPhp parseURL orig options = Inr out
     \<and> (\<forall>w. cacheTtl options = Some (Integer w) \<longrightarrow>
            sublist (''set_transient( $key, (int) $result, ''
                     @ (if sint w < 0 then CHR ''-'' # decimal (nat (- sint w))
                        else decimal (nat (sint w)))
                     @ '' );'') out
          \<and> literal_value (if sint w < 0 then CHR ''-'' # decimal (nat (- sint w))
                            else decimal (nat (sint w))) = sint w)
     \<and> (cacheTtl options = None \<longrightarrow>
            sublist ''set_transient( $key, (int) $result, 5 );'' out)"
proof -
  from ttl_line_in_output [where parseURL = parseURL and options = options, OF assms]
  obtain out where out: "buildPhp parseURL orig options = Inr out"
    and sub: "sublist (''set_transient( $key, (int) $result, '' @ ttl_literal options @ '' );'') out"
    by blast
  have a: "sublist (''set_transient( $key, (int) $result, ''
                     @ (if sint w < 0 then CHR ''-'' # decimal (nat (- sint w))
                        else decimal (nat (sint w)))
                     @ '' );'') out"
    if "cacheTtl options = Some (Integer w)" for w
    using sub that by (simp add: ttl_literal_def)
  have b: "sublist ''set_transient( $key, (int) $result, 5 );'' out"
    if "cacheTtl options = None"
    using sub that by (simp add: ttl_literal_def)
  show ?thesis
  proof (rule exI [of _ out], intro conjI allI impI)
    show "buildPhp parseURL orig options = Inr out"
      by (rule out)
  next
    fix w
    assume "cacheTtl options = Some (Integer w)"
    then show "sublist (''set_transient( $key, (int) $result, ''
                     @ (if sint w < 0 then CHR ''-'' # decimal (nat (- sint w))
                        else decimal (nat (sint w)))
                     @ '' );'') out"
      by (rule a)
  next
    fix w
    show "literal_value (if sint w < 0 then CHR ''-'' # decimal (nat (- sint w))
                         else decimal (nat (sint w))) = sint w"
      by (rule literal_value_decimal)
  next
    assume "cacheTtl options = None"
    then show "sublist ''set_transient( $key, (int) $result, 5 );'' out"
      by (rule b)
  qed
qed

theorem C9_cache_ttl_witness:
  \<open>URL_of_examples ''http://localhost:5173''
     = Some \<lparr>protocol = ''http:'', hostname = ''localhost'', port = ''5173''\<rparr>
   \<and> (\<exists>out. buildPhp URL_of_examples ''http://localhost:5173''
               (opts\<lparr>cacheTtl := Some (Integer 10)\<rparr>) = Inr out
          \<and> sublist ''set_transient( $key, (int) $result, 10 );'' out
          \<and> literal_value ''10'' = 10)
   \<and> (\<exists>out. buildPhp URL_of_examples ''http://localhost:5173'' opts = Inr out
          \<and> sublist ''set_transient( $key, (int) $result, 5 );'' out)\<close>
  using C9_cache_ttl [where parseURL = URL_of_examples and orig = "''http://localhost:5173''"
      and options = "opts\<lparr>cacheTtl := Some (Integer 10)\<rparr>", OF URL_of_examples_localhost]
    C9_cache_ttl [where parseURL = URL_of_examples and orig = "''http://localhost:5173''"
      and options = opts, OF URL_of_examples_localhost]
  by (simp add: URL_of_examples_localhost opts_def decimal_10)

subsection \<open>C10: the registrations\<close>

text \<open>
  Claim C10, as stated: for every origin and configuration, the registration statements
  are emitted outside the \<^verbatim>\<open>function_exists\<close> guards; the injector registration line
  appears exactly once in the output, and the policy registration line appears exactly
  once if and only if \<^verbatim>\<open>csp\<close> is not \<^verbatim>\<open>false\<close>. This fails, because every
  caller-supplied string is copied into the output as it is: with a policy string that
  holds the injector registration between two line breaks, two lines of the output are
  the injector registration.
\<close>

theorem C10_registration_counterexample:
  \<open>case buildPhp URL_of_examples ''http://localhost:5173''
       (opts\<lparr>csp := Some (CspString
          (''x'' @ [LF] @ ''add_action( \'wp_head\', \'vite_hmr_inject\', 1 );'' @ [LF] @ ''y''))\<rparr>) of
     Inl e \<Rightarrow> False
   | Inr out \<Rightarrow>
       count_list (split_lines out) ''add_action( \'wp_head\', \'vite_hmr_inject\', 1 );'' = 2\<close>
proof -
  let ?o = \<open>opts\<lparr>csp := Some (CspString
          (''x'' @ [LF] @ ''add_action( \'wp_head\', \'vite_hmr_inject\', 1 );'' @ [LF] @ ''y''))\<rparr>\<close>
  let ?u = "\<lparr>protocol = ''http:'', hostname = ''localhost'', port = ''5173''\<rparr>"
  from split_lines_output_concat [where parseURL = URL_of_examples and options = ?o,
      OF URL_of_examples_localhost]
  obtain out where out: "buildPhp URL_of_examples ''http://localhost:5173'' ?o = Inr out"
    and lines: "split_lines out = concat (map split_lines (fragments ?u ''http://localhost:5173'' ?o))"
    by blast
  have \<open>count_list (concat (map split_lines (fragments ?u ''http://localhost:5173'' ?o)))
      ''add_action( \'wp_head\', \'vite_hmr_inject\', 1 );'' = 2\<close>
    by (simp add: fragments_def header_fragment_def detector_fragment_def probe_fragment_def
        injector_fragment_def subscription_block_def policy_fragment_def policy_text_def
        injector_registration_def policy_registration_def pattern_list_def
        supplied_patterns_def quoted_def resolved_port_def ttl_literal_def reload_events_def
        opts_def)
  with out lines show ?thesis by simp
qed

text \<open>
  Claim C10, amended: for every origin that the \<^verbatim>\<open>URL\<close> constructor accepts and every
  configuration in which no caller-supplied string contains a line break, the lines of
  the output are the lines that \<^verbatim>\<open>buildPhp\<close> generates; exactly one of them is the
  injector registration, and it follows the two closing braces of the injector function
  and of its guard; the number of lines that are the policy registration is 0 when
  \<^verbatim>\<open>csp\<close> is \<^verbatim>\<open>false\<close> and 1 otherwise, and then this line follows the two
  closing braces of the policy function and of its guard.
\<close>

theorem C10_registrations:
  assumes "parseURL orig = Some url"
    and "\<forall>s\<in>set (interpolated url orig options). LF \<notin> set s"
  shows "\<exists>out. buildPhp parseURL orig options = Inr out
     \<and> split_lines out = buildPhp_lines url orig options
     \<and> count_list (split_lines out) injector_registration = 1
     \<and> sublist [TAB # ''}'', ''}'', injector_registration] (split_lines out)
     \<and> count_list (split_lines out) policy_registration
         = (if csp options = Some (CspBool False) then 0 else 1)
     \<and> (csp options \<noteq> Some (CspBool False) \<longrightarrow>
          sublist [TAB # ''}'', ''}'', policy_registration] (split_lines out))"
  using assms(1) split_lines_output [OF assms(2)]
    count_injector_registration [of url orig options]
    count_policy_registration [of url orig options]
    injector_registration_place [of url orig options]
    policy_registration_place [of options url orig]
  by (simp add: buildPhp_Some buildPhp_lines_fragments)

theorem C10_registrations_witness:
  \<open>URL_of_examples ''http://localhost:5173''
     = Some \<lparr>protocol = ''http:'', hostname = ''localhost'', port = ''5173''\<rparr>
   \<and> list_all (\<lambda>s. LF \<notin> set s)
        (interpolated \<lparr>protocol = ''http:'', hostname = ''localhost'', port = ''5173''\<rparr>
           ''http://localhost:5173'' opts)
   \<and> (\<exists>out. buildPhp URL_of_examples ''http://localhost:5173'' opts = Inr out
        \<and> count_list (split_lines out) ''add_action( \'wp_head\', \'vite_hmr_inject\', 1 );'' = 1
        \<and> count_list (split_lines out) ''add_action( \'send_headers\', \'vite_hmr_csp\', 1 );'' = 1)\<close>
proof -
  have free: "\<forall>s\<in>set (interpolated \<lparr>protocol = ''http:'', hostname = ''localhost'', port = ''5173''\<rparr>
                 ''http://localhost:5173'' opts). LF \<notin> set s"
    by (simp add: interpolated_def opts_def resolved_port_def ttl_literal_def
        supplied_patterns_def reload_events_def)
  from C10_registrations [where parseURL = URL_of_examples and options = opts,
      OF URL_of_examples_localhost free]
  obtain out where "buildPhp URL_of_examples ''http://localhost:5173'' opts = Inr out"
    and "count_list (split_lines out) injector_registration = 1"
    and "count_list (split_lines out) policy_registration
          = (if csp opts = Some (CspBool False) then 0 else 1)"
    by blast
  then have "\<exists>out. buildPhp URL_of_examples ''http://localhost:5173'' opts = Inr out
        \<and> count_list (split_lines out) injector_registration = 1
        \<and> count_list (split_lines out) policy_registration = 1"
    by (simp add: opts_def)
  with free show ?thesis
    by (simp add: URL_of_examples_localhost injector_registration_def policy_registration_def
        list_all_iff)
qed

end
